theory Spec2Isabelle
  imports Main "HOL-Library.AList"
begin

section \<open>The Model class of @schemafire/firestore (src/model.ts)\<close>

text \<open>
  The development embeds the class \<open>Model\<close> of \<open>model.ts\<close>: its fields become a record,
  its methods functions from the model to the updated model, an exception a returned
  error value, the calls made on the transaction handle a list of operations, and calls
  of \<open>logError\<close> a list of messages. One invocation of the transaction callback is
  modelled; the host may repeat it, each time from the same model.
\<close>

subsection \<open>Field values and field maps\<close>

text \<open>
  A JavaScript object is an association list in insertion order with distinct keys.
  \<open>VFieldDelete\<close> and \<open>VServerTimestamp\<close> are the host's sentinels
  \<open>FieldValue.delete()\<close> and \<open>FieldValue.serverTimestamp()\<close>.
\<close>

datatype val =
    VUndefined
  | VNull
  | VBool bool
  | VNum int
  | VStr string
  | VObj "(string \<times> val) list"
  | VFieldDelete
  | VServerTimestamp

type_synonym fields = "(string \<times> val) list"

text \<open>JavaScript truthiness of a property read; a missing property reads \<open>undefined\<close>.\<close>

fun truthy :: "val option \<Rightarrow> bool" where
  "truthy None = False"
| "truthy (Some VUndefined) = False"
| "truthy (Some VNull) = False"
| "truthy (Some (VBool b)) = b"
| "truthy (Some (VNum n)) = (n \<noteq> 0)"
| "truthy (Some (VStr s)) = (s \<noteq> [])"
| "truthy (Some (VObj fs)) = True"
| "truthy (Some VFieldDelete) = True"
| "truthy (Some VServerTimestamp) = True"

text \<open>Object spread \<open>{...a, ...b}\<close>: a key of \<open>b\<close> replaces in place or is appended.\<close>

definition spread :: "fields \<Rightarrow> fields \<Rightarrow> fields" where
  "spread a b = fold (\<lambda>(k, v). AList.update k v) b a"

text \<open>lodash \<open>isEmpty\<close> on an object or an array.\<close>

definition isEmpty :: "'a list \<Rightarrow> bool" where
  "isEmpty xs = (xs = [])"

text \<open>lodash \<open>pick(keys, obj)\<close>: the listed keys that \<open>obj\<close> has, in the order listed.\<close>

definition pick :: "string list \<Rightarrow> fields \<Rightarrow> fields" where
  "pick keys obj =
     List.map_filter (\<lambda>k. map_option (Pair k) (map_of obj k)) (remdups keys)"

text \<open>
  Modelled from the spec: \<open>removeUndefined\<close> of @schemafire/core is not among the sources.
  It drops the properties holding \<open>undefined\<close> from the mirror payload.
\<close>

definition removeUndefined :: "fields \<Rightarrow> fields" where
  "removeUndefined obj = filter (\<lambda>(k, v). v \<noteq> VUndefined) obj"

text \<open>\<open>key.includes('.')\<close>\<close>

definition includesDot :: "string \<Rightarrow> bool" where
  "includesDot key = (CHR ''.'' \<in> set key)"

subsection \<open>Documents, the host database and the operations issued on it\<close>

text \<open>
  A document reference is a collection and an id. The id is the JavaScript value handed
  to \<open>doc(...)\<close>; the source types it \<open>string\<close>.
\<close>

datatype docref = DocRef (coll: string) (docid: val)

type_synonym clause = "string \<times> string \<times> val"

record snapshot =
  snap_ref :: docref
  snap_exists :: bool

record FirestoreRecord =
  rec_doc :: docref
  rec_snap :: snapshot
  rec_data :: "fields option"

text \<open>
  The host database as the code observes it: what a read inside the transaction returns,
  the first document a query matches, and what a read after the commit returns.
\<close>

record Db =
  docs :: "docref \<Rightarrow> fields option"
  queryFirst :: "string \<Rightarrow> clause list \<Rightarrow> docref option"
  docsAfterCommit :: "docref \<Rightarrow> fields option"

text \<open>
  Calls on the transaction handle: \<open>get\<close>, a query read, \<open>create\<close>,
  \<open>set(doc, data, {merge})\<close> (the flag is \<open>merge\<close>), \<open>update\<close>, \<open>delete\<close>.
\<close>

datatype op =
    TGet docref
  | TQuery string "clause list"
  | TCreate docref fields
  | TSet docref fields bool
  | TUpdate docref fields
  | TDelete docref

text \<open>
  I/O of a run: a transaction with the operations of its attempt and whether it
  committed, or a plain read of a document outside a transaction.
\<close>

datatype io = RunTransaction "op list" bool | DocGet docref

datatype error =
    ProtectedField string
  | ValidationError
  | StateError string

subsection \<open>Actions, transaction state, schema\<close>

datatype action =
    Create fields
  | FindOrCreate fields
  | Update fields
  | Delete
  | Find
  | Query "clause list"
  | Callback "fields \<Rightarrow> action list"

datatype LastRunStatus = Found | Created | ForceCreated | Updated | Deleted | NotFound

record ModelActions =
  ar_get :: bool
  ar_create :: bool
  ar_forceCreate :: bool
  ar_update :: bool
  ar_delete :: bool
  ar_query :: bool

definition noActionsRun :: ModelActions where
  "noActionsRun = \<lparr> ar_get = False, ar_create = False, ar_forceCreate = False,
     ar_update = False, ar_delete = False, ar_query = False \<rparr>"

record TransactionState =
  s_rawData :: fields
  s_actions :: "action list"
  s_actionsRun :: ModelActions
  s_errors :: "error list"
  s_lastRunStatus :: "LastRunStatus option"
  s_syncData :: "FirestoreRecord option"

text \<open>
  \<open>RunConfig\<close> and \<open>SchemaConfig\<close>: every option may be absent;
  \<open>{...schema.config, ...config}\<close> takes the caller's value where it gives one.
\<close>

record RunConfig =
  maxAttempts :: "nat option"
  forceGet :: "bool option"
  mirrorOn :: "bool option"
  autoValidate :: "bool option"

definition emptyConfig :: RunConfig where
  "emptyConfig = \<lparr> maxAttempts = None, forceGet = None, mirrorOn = None, autoValidate = None \<rparr>"

definition orElse :: "'a option \<Rightarrow> 'a option \<Rightarrow> 'a option" where
  "orElse b a = (case b of Some x \<Rightarrow> Some x | None \<Rightarrow> a)"

definition mergeConfig :: "RunConfig \<Rightarrow> RunConfig \<Rightarrow> RunConfig" where
  "mergeConfig a b = \<lparr> maxAttempts = orElse (maxAttempts b) (maxAttempts a),
     forceGet = orElse (forceGet b) (forceGet a),
     mirrorOn = orElse (mirrorOn b) (mirrorOn a),
     autoValidate = orElse (autoValidate b) (autoValidate a) \<rparr>"

text \<open>\<open>SchemaCacheRules\<close>: the mirror rule of a schema.\<close>

record SchemaCacheRules =
  collection :: string
  name :: string
  idField :: "string option"
  fields_list :: "string list"

text \<open>
  The schema: its collection, default run options, mirror rule, and the codec as the
  list of its props, each a check of the value read under that key.
\<close>

record Schema =
  ref :: string
  config :: RunConfig
  mirror :: "SchemaCacheRules option"
  codecProps :: "(string \<times> (val option \<Rightarrow> bool)) list"

record Model =
  actions :: "action list"
  rawData :: fields
  currentRunConfig :: RunConfig
  errors :: "error list"
  lastRunStatus :: "LastRunStatus option"
  existsViaCreation :: bool
  actionsRun :: ModelActions
  hasRunSuccessfully :: bool
  doc :: docref
  model_id :: val
  snap :: "snapshot option"
  schema :: Schema

subsection \<open>Helpers of utils.ts, base.ts and proxy.ts\<close>

text \<open>
  Modelled from the spec: \<open>baseProps\<close>, \<open>isBaseProp\<close> and \<open>omitBaseFields\<close> of base.ts and
  utils.ts are not among the sources. The base fields are the schema version and the
  system-managed timestamps.
\<close>

definition baseProps :: "string list" where
  "baseProps = [''createdAt'', ''updatedAt'', ''schemaVersion'']"

definition isBaseProp :: "string \<Rightarrow> bool" where
  "isBaseProp key = (key \<in> set baseProps)"

definition omitBaseFields :: "fields \<Rightarrow> fields" where
  "omitBaseFields obj = filter (\<lambda>(k, v). \<not> isBaseProp k) obj"

text \<open>
  Modelled from the spec: \<open>serverUpdateTimestamp\<close> of utils.ts is not among the sources.
  It returns the field map with a server-assigned-timestamp sentinel merged in.
\<close>

definition serverUpdateTimestamp :: "fields \<Rightarrow> fields" where
  "serverUpdateTimestamp obj = spread obj [(''updatedAt'', VServerTimestamp)]"

text \<open>
  Modelled from the spec: the \<open>actionsContain...\<close> tests and \<open>findQueryAction\<close> of utils.ts
  are not among the sources. Each tells whether the log holds an action of its kind;
  \<open>findQueryAction\<close> gives the clauses of the first Query action.
\<close>

fun isCreate :: "action \<Rightarrow> bool" where
  "isCreate (Create d) = True"
| "isCreate a = False"

fun isFindOrCreate :: "action \<Rightarrow> bool" where
  "isFindOrCreate (FindOrCreate d) = True"
| "isFindOrCreate a = False"

fun isUpdate :: "action \<Rightarrow> bool" where
  "isUpdate (Update d) = True"
| "isUpdate a = False"

fun isDelete :: "action \<Rightarrow> bool" where
  "isDelete Delete = True"
| "isDelete a = False"

fun isFind :: "action \<Rightarrow> bool" where
  "isFind Find = True"
| "isFind a = False"

fun isCallback :: "action \<Rightarrow> bool" where
  "isCallback (Callback f) = True"
| "isCallback a = False"

definition actionsContainCreate :: "action list \<Rightarrow> bool" where
  "actionsContainCreate as = list_ex isCreate as"

definition actionsContainFindOrCreate :: "action list \<Rightarrow> bool" where
  "actionsContainFindOrCreate as = list_ex isFindOrCreate as"

definition actionsContainUpdate :: "action list \<Rightarrow> bool" where
  "actionsContainUpdate as = list_ex isUpdate as"

definition actionsContainDelete :: "action list \<Rightarrow> bool" where
  "actionsContainDelete as = list_ex isDelete as"

definition actionsContainFind :: "action list \<Rightarrow> bool" where
  "actionsContainFind as = list_ex isFind as"

definition actionsContainCallback :: "action list \<Rightarrow> bool" where
  "actionsContainCallback as = list_ex isCallback as"

fun findQueryAction :: "action list \<Rightarrow> clause list option" where
  "findQueryAction [] = None"
| "findQueryAction (Query cs # as) = Some cs"
| "findQueryAction (a # as) = findQueryAction as"

text \<open>
  Modelled from the spec: the data proxy of proxy.ts is not among the sources. An
  assignment through it writes the value into the local view, a \<open>delete\<close> through it
  removes the field from the local view; neither queues an action.
\<close>

definition proxySet :: "string \<Rightarrow> val \<Rightarrow> Model \<Rightarrow> Model" where
  "proxySet key v m = m\<lparr>rawData := AList.update key v (rawData m)\<rparr>"

definition proxyDelete :: "string \<Rightarrow> Model \<Rightarrow> Model" where
  "proxyDelete key m = m\<lparr>rawData := AList.delete key (rawData m)\<rparr>"

subsection \<open>Helpers of model.utils.ts\<close>

text \<open>
  Modelled from the spec: \<open>buildUpdatedData\<close> of model.utils.ts is not among the sources.
  It folds the payloads of the Update and Create (Create, FindOrCreate) actions over
  \<open>rawData\<close> in the order of the list, a later payload overwriting an earlier one for the
  same field; with \<open>withoutDeletes\<close> the fields left holding a delete marker are dropped.
\<close>

fun applyAction :: "action \<Rightarrow> fields \<Rightarrow> fields" where
  "applyAction (Update d) acc = spread acc d"
| "applyAction (Create d) acc = spread acc d"
| "applyAction (FindOrCreate d) acc = spread acc d"
| "applyAction a acc = acc"

definition buildUpdatedData :: "bool \<Rightarrow> fields \<Rightarrow> action list \<Rightarrow> fields" where
  "buildUpdatedData withoutDeletes rd as =
     (let d = fold applyAction as rd
      in if withoutDeletes then filter (\<lambda>(k, v). v \<noteq> VFieldDelete) d else d)"

text \<open>
  Modelled from the spec: \<open>buildMirrorData\<close> of model.utils.ts is not among the sources.
  It filters the outgoing payload down to the mirror rule's selected fields.
\<close>

definition buildMirrorData :: "fields \<Rightarrow> string list \<Rightarrow> fields" where
  "buildMirrorData allUpdates fs = pick fs allUpdates"

text \<open>
  Modelled from the spec: \<open>getIdFieldFromSchema\<close> of model.utils.ts is not among the
  sources. It is the id-field of the schema's mirror rule, when there is one.
\<close>

definition getIdFieldFromSchema :: "Schema \<Rightarrow> string option" where
  "getIdFieldFromSchema sc = (case mirror sc of None \<Rightarrow> None | Some r \<Rightarrow> idField r)"

text \<open>
  Modelled from the spec: \<open>snapshotExists\<close> of model.utils.ts is not among the sources.
  The document exists when the snapshot says so or a create or update was observed.
\<close>

definition snapshotExists :: "snapshot option \<Rightarrow> bool \<Rightarrow> bool" where
  "snapshotExists sn viaCreation =
     ((case sn of None \<Rightarrow> False | Some s \<Rightarrow> snap_exists s) \<or> viaCreation)"

text \<open>
  Modelled from the spec: \<open>createTransactionState\<close> of model.utils.ts is not among the
  sources. A fresh state holds the raw data, no error and no status. Line 313 also hands
  it the log; the state's own action list holds the actions callbacks add during the
  attempt, which line 339 appends to the log, so it starts empty.
\<close>

definition createTransactionState :: "fields \<Rightarrow> TransactionState" where
  "createTransactionState rd = \<lparr> s_rawData = rd, s_actions = [], s_actionsRun = noActionsRun,
     s_errors = [], s_lastRunStatus = None, s_syncData = None \<rparr>"

text \<open>
  Modelled from the spec: \<open>getRecord\<close> of utils.ts is not among the sources. It reads a
  document: its reference, the snapshot and the data when the document exists.
\<close>

definition getRecord :: "(docref \<Rightarrow> fields option) \<Rightarrow> docref \<Rightarrow> FirestoreRecord" where
  "getRecord store d = \<lparr> rec_doc = d,
     rec_snap = \<lparr> snap_ref = d, snap_exists = (store d \<noteq> None) \<rparr>,
     rec_data = store d \<rparr>"

text \<open>
  Modelled from the spec: the step functions of model.utils.ts are not among the sources.
  Each returns the new state and the calls it made on the transaction handle.
  \<open>getTransaction\<close> reads the document: the state carries the snapshot, the status
  found or not-found and, unless \<open>noData\<close>, the data read.
\<close>

definition getTransaction ::
  "Db \<Rightarrow> docref \<Rightarrow> bool \<Rightarrow> TransactionState \<Rightarrow> TransactionState \<times> op list" where
  "getTransaction db d noData st =
     (let r = getRecord (docs db) d;
          found = snap_exists (rec_snap r)
      in (st\<lparr> s_rawData := (case rec_data r of
                              Some x \<Rightarrow> (if noData then s_rawData st else x)
                            | None \<Rightarrow> s_rawData st),
              s_actionsRun := (s_actionsRun st)\<lparr>ar_get := True\<rparr>,
              s_lastRunStatus := Some (if found then Found else NotFound),
              s_syncData := Some (if noData then r\<lparr>rec_data := None\<rparr> else r) \<rparr>,
          [TGet d]))"

text \<open>
  Modelled from the spec: \<open>createTransaction\<close> creates the document with the data, or
  with \<open>force\<close> overwrites it; the status is created or force-created.
\<close>

definition createTransaction ::
  "docref \<Rightarrow> fields \<Rightarrow> bool \<Rightarrow> TransactionState \<Rightarrow> TransactionState \<times> op list" where
  "createTransaction d dat force st =
     (if force
      then (st\<lparr> s_actionsRun := (s_actionsRun st)\<lparr>ar_forceCreate := True\<rparr>,
                 s_lastRunStatus := Some ForceCreated \<rparr>, [TSet d dat False])
      else (st\<lparr> s_actionsRun := (s_actionsRun st)\<lparr>ar_create := True\<rparr>,
                 s_lastRunStatus := Some Created \<rparr>, [TCreate d dat]))"

text \<open>
  Modelled from the spec: \<open>updateTransaction\<close> writes the data to the document by an
  update; the status is updated.
\<close>

definition updateTransaction ::
  "docref \<Rightarrow> fields \<Rightarrow> TransactionState \<Rightarrow> TransactionState \<times> op list" where
  "updateTransaction d dat st =
     (st\<lparr> s_actionsRun := (s_actionsRun st)\<lparr>ar_update := True\<rparr>,
          s_lastRunStatus := Some Updated \<rparr>, [TUpdate d dat])"

text \<open>
  Modelled from the spec: \<open>deleteTransaction\<close> deletes the document; the status is
  deleted.
\<close>

definition deleteTransaction ::
  "docref \<Rightarrow> TransactionState \<Rightarrow> TransactionState \<times> op list" where
  "deleteTransaction d st =
     (st\<lparr> s_actionsRun := (s_actionsRun st)\<lparr>ar_delete := True\<rparr>,
          s_lastRunStatus := Some Deleted \<rparr>, [TDelete d])"

text \<open>
  Modelled from the spec: \<open>queryTransaction\<close> resolves the query; the state reflects the
  first matching document, or not-found.
\<close>

definition queryTransaction ::
  "Db \<Rightarrow> string \<Rightarrow> clause list \<Rightarrow> TransactionState \<Rightarrow> TransactionState \<times> op list" where
  "queryTransaction db c cs st =
     (case queryFirst db c cs of
        None \<Rightarrow> (st\<lparr> s_actionsRun := (s_actionsRun st)\<lparr>ar_query := True\<rparr>,
                      s_lastRunStatus := Some NotFound \<rparr>, [TQuery c cs])
      | Some d \<Rightarrow>
          (let r = getRecord (docs db) d
           in (st\<lparr> s_rawData := (case rec_data r of Some x \<Rightarrow> x | None \<Rightarrow> s_rawData st),
                   s_actionsRun := (s_actionsRun st)\<lparr>ar_query := True\<rparr>,
                   s_lastRunStatus := Some (if snap_exists (rec_snap r) then Found else NotFound),
                   s_syncData := Some r \<rparr>, [TQuery c cs])))"

text \<open>
  Modelled from the spec: \<open>runCallbacks\<close> gives every queued callback, in insertion order,
  the data of the state; the actions a callback enqueues go onto the state's own list.
  A callback is the function from that data to the actions it enqueues.
\<close>

fun callbackActions :: "fields \<Rightarrow> action \<Rightarrow> action list" where
  "callbackActions d (Callback f) = f d"
| "callbackActions d a = []"

definition runCallbacks :: "action list \<Rightarrow> TransactionState \<Rightarrow> TransactionState" where
  "runCallbacks as st =
     st\<lparr>s_actions := s_actions st @ concat (map (callbackActions (s_rawData st)) as)\<rparr>"

subsection \<open>The Model: mirroring\<close>

text \<open>\<open>canMirror\<close> (lines 217-223).\<close>

definition canMirror :: "Model \<Rightarrow> bool" where
  "canMirror m = (mirror (schema m) \<noteq> None \<and> truthy (Some (model_id m))
     \<and> mirrorOn (currentRunConfig m) = Some True)"

text \<open>
  Line 239: \<open>idField ? this.rawData[idField] : this.id\<close>; \<open>None\<close> is a missing property.
\<close>

definition mirrorId :: "Model \<Rightarrow> SchemaCacheRules \<Rightarrow> val option" where
  "mirrorId m rule =
     (case idField rule of
        None \<Rightarrow> Some (model_id m)
      | Some f \<Rightarrow> (if f \<noteq> [] then map_of (rawData m) f else Some (model_id m)))"

text \<open>
  \<open>mirrorTransaction\<close> (lines 228-275): the argument is the updates or \<open>'delete'\<close>; the
  result is the calls made on the transaction handle and the messages logged. After the
  \<open>update\<close> of a key with a dot the source does not return: the merge \<open>set\<close> follows.
  The first message is logged with the id and the raw data appended.
\<close>

datatype mirror_arg = MirrorDelete | MirrorData fields

definition mirrorTransaction :: "Model \<Rightarrow> mirror_arg \<Rightarrow> op list \<times> string list" where
  "mirrorTransaction m allUpdates =
     (if \<not> canMirror m then ([], [])
      else case mirror (schema m) of
        None \<Rightarrow> ([], [])
      | Some rule \<Rightarrow>
          (let key = name rule
           in if \<not> truthy (mirrorId m rule)
              then ([], [''Mirroring failed due to no provided id''])
              else
                (let d = DocRef (collection rule)
                           (case mirrorId m rule of Some v \<Rightarrow> v | None \<Rightarrow> VUndefined)
                 in case allUpdates of
                      MirrorDelete \<Rightarrow>
                        ([TSet d (serverUpdateTimestamp [(key, VFieldDelete)]) True], [])
                    | MirrorData u \<Rightarrow>
                        (let dat = buildMirrorData u (fields_list rule)
                         in if isEmpty dat
                            then ([], [''No data passed into the model''])
                            else
                              ((if includesDot key
                                then [TUpdate d (serverUpdateTimestamp
                                        [(key, VObj (removeUndefined dat))])]
                                else [])
                               @ [TSet d (serverUpdateTimestamp
                                    [(key, VObj (removeUndefined dat))]) True],
                               [])))))"

text \<open>\<open>resetRawData\<close> (lines 290-298): the data proxy is a view of \<open>rawData\<close>.\<close>

definition resetRawData :: "fields \<Rightarrow> Model \<Rightarrow> Model" where
  "resetRawData newData m = m\<lparr>rawData := newData\<rparr>"

subsection \<open>The Model: validation\<close>

text \<open>
  Decoding with an interface codec: every prop accepts what the data holds under its key.
\<close>

definition decode :: "(string \<times> (val option \<Rightarrow> bool)) list \<Rightarrow> fields \<Rightarrow> bool" where
  "decode props dat = list_all (\<lambda>(k, chk). chk (map_of dat k)) props"

definition pickProps ::
  "string list \<Rightarrow> (string \<times> (val option \<Rightarrow> bool)) list \<Rightarrow> (string \<times> (val option \<Rightarrow> bool)) list"
where
  "pickProps keys props = filter (\<lambda>(k, chk). k \<in> set keys) props"

text \<open>\<open>validate\<close> (lines 564-578): the error, or nothing.\<close>

definition validate :: "Model \<Rightarrow> error option" where
  "validate m =
     (let dat = omitBaseFields (rawData m);
          isCreateAction = (actionsContainCreate (actions m)
                            \<or> actionsContainFindOrCreate (actions m));
          report =
            (if isCreateAction then decode (codecProps (schema m)) dat
             else if actionsContainUpdate (actions m)
             then (let updatedKeys = map fst (buildUpdatedData False (rawData m) (actions m))
                   in decode (pickProps updatedKeys (codecProps (schema m)))
                        (pick updatedKeys dat))
             else decode (codecProps (schema m)) dat)
      in if report then None else Some ValidationError)"

text \<open>\<open>throwIfInvalid\<close> (lines 403-411): the error thrown, or nothing.\<close>

definition throwIfInvalid :: "Model \<Rightarrow> error option" where
  "throwIfInvalid m =
     (if autoValidate (currentRunConfig m) \<noteq> Some True then None else validate m)"

subsection \<open>The Model: the transaction\<close>

text \<open>
  What \<open>buildTransaction\<close> gives: nothing (the log was empty), the state of a committed
  attempt, or the error that aborted the attempt; with the calls made on the transaction
  handle and the messages logged.
\<close>

datatype tx_result =
    TxSkipped "string list"
  | TxCommitted TransactionState "op list" "string list"
  | TxAborted error "op list" "string list"

text \<open>
  Lines 363-378: validate, create with \<open>dataWithoutDeletes\<close>, mirror, return. \<open>pre\<close> is
  the calls already made in the attempt.
\<close>

definition createBranch ::
  "Model \<Rightarrow> bool \<Rightarrow> fields \<Rightarrow> TransactionState \<Rightarrow> op list \<Rightarrow> tx_result" where
  "createBranch m force dataWithoutDeletes st pre =
     (case throwIfInvalid m of
        Some e \<Rightarrow> TxAborted e pre []
      | None \<Rightarrow>
          (let (st1, ops1) = createTransaction (doc m) dataWithoutDeletes force st;
               (ops2, logs2) = mirrorTransaction m (MirrorData dataWithoutDeletes)
           in TxCommitted st1 (pre @ ops1 @ ops2) logs2))"

text \<open>Lines 380-394: the optional read, then the update write unless the data is empty.\<close>

definition updateBranch ::
  "Db \<Rightarrow> bool \<Rightarrow> Model \<Rightarrow> fields \<Rightarrow> TransactionState \<Rightarrow> op list \<Rightarrow> tx_result" where
  "updateBranch db alwaysGet m dat st pre =
     (let emptyData = isEmpty dat;
          (st1, ops1) = (if alwaysGet then getTransaction db (doc m) (\<not> emptyData) st
                         else (st, []))
      in if emptyData then TxCommitted st1 (pre @ ops1) []
         else case throwIfInvalid m of
                Some e \<Rightarrow> TxAborted e (pre @ ops1) []
              | None \<Rightarrow>
                  (let (st2, ops2) = updateTransaction (doc m) dat st1;
                       (ops3, logs3) = mirrorTransaction m (MirrorData dat)
                   in TxCommitted st2 (pre @ ops1 @ ops2 @ ops3) logs3))"

text \<open>
  Lines 315-326: the delete. The read, made when the id-field has no value locally,
  changes the state only; the local raw data that the mirror step reads stays as it is.
\<close>

definition deleteBranch :: "Db \<Rightarrow> Model \<Rightarrow> TransactionState \<Rightarrow> tx_result" where
  "deleteBranch db m st =
     (let needGet = (case getIdFieldFromSchema (schema m) of
                       None \<Rightarrow> False
                     | Some f \<Rightarrow> f \<noteq> [] \<and> \<not> truthy (map_of (rawData m) f));
          (st1, ops1) = (if needGet then getTransaction db (doc m) False st else (st, []));
          (ops2, logs2) = mirrorTransaction m MirrorDelete;
          (st2, ops3) = deleteTransaction (doc m) st1
      in TxCommitted st2 (ops1 @ ops2 @ ops3) logs2)"

text \<open>\<open>buildTransaction\<close> (lines 303-398), one attempt of the transaction.\<close>

definition buildTransaction :: "Db \<Rightarrow> bool \<Rightarrow> Model \<Rightarrow> tx_result" where
  "buildTransaction db alwaysGet m =
     (if isEmpty (actions m) \<and> \<not> alwaysGet
      then TxSkipped [''No data to process for this model'']
      else
        (let st0 = createTransactionState (rawData m)
         in if actionsContainDelete (actions m) then deleteBranch db m st0
            else
              (let (st1, ops1) =
                     (case findQueryAction (actions m) of
                        Some cs \<Rightarrow> queryTransaction db (ref (schema m)) cs st0
                      | None \<Rightarrow> (st0, []));
                   (st2, ops2) =
                     (if actionsContainCallback (actions m)
                      then (let (s, os) = getTransaction db (doc m) False st1
                            in (runCallbacks (actions m) s, os))
                      else (st1, []));
                   acts = actions m @ s_actions st2;
                   dat = buildUpdatedData False (s_rawData st2) acts;
                   dataWithoutDeletes = buildUpdatedData True (s_rawData st2) acts;
                   (st3, ops3) =
                     (if actionsContainFind (actions m)
                      then getTransaction db (doc m) False st2 else (st2, []));
                   (st4, ops4) =
                     (if actionsContainFindOrCreate (actions m)
                      then getTransaction db (doc m) False st3 else (st3, []));
                   pre = ops1 @ ops2 @ ops3 @ ops4
               in if actionsContainFindOrCreate (actions m)
                     \<and> \<not> snapshotExists (map_option rec_snap (s_syncData st4))
                           (existsViaCreation m)
                  then createBranch m False dataWithoutDeletes st4 pre
                  else if actionsContainCreate (actions m)
                  then createBranch m True dataWithoutDeletes st4 pre
                  else updateBranch db alwaysGet m dat st4 pre)))"

subsection \<open>The Model: run\<close>

text \<open>\<open>syncData\<close> (lines 421-426).\<close>

definition syncData :: "FirestoreRecord \<Rightarrow> Model \<Rightarrow> Model" where
  "syncData r m =
     (resetRawData (case rec_data r of Some d \<Rightarrow> d | None \<Rightarrow> rawData m) m)
       \<lparr> doc := rec_doc r, model_id := docid (rec_doc r), snap := Some (rec_snap r) \<rparr>"

text \<open>\<open>setCurrentConfig\<close> (lines 428-430).\<close>

definition setCurrentConfig :: "RunConfig \<Rightarrow> Model \<Rightarrow> Model" where
  "setCurrentConfig cfg m = m\<lparr>currentRunConfig := mergeConfig (config (schema m)) cfg\<rparr>"

text \<open>\<open>manageLastRunStatus\<close> (lines 436-441).\<close>

definition manageLastRunStatus :: "Model \<Rightarrow> Model" where
  "manageLastRunStatus m =
     (case lastRunStatus m of
        None \<Rightarrow> m
      | Some s \<Rightarrow> m\<lparr>existsViaCreation := (s = Updated \<or> s = Created \<or> s = ForceCreated)\<rparr>)"

text \<open>
  \<open>forceGetIfNeeded\<close> with \<open>getSnap\<close> (lines 413-416, 443-447): a read outside the
  transaction, after the commit.
\<close>

definition forceGetIfNeeded :: "Db \<Rightarrow> RunConfig \<Rightarrow> Model \<Rightarrow> Model \<times> io list" where
  "forceGetIfNeeded db cfg m =
     (if forceGet cfg = Some True \<and> (ar_create (actionsRun m) \<or> ar_forceCreate (actionsRun m))
      then (syncData (getRecord (docsAfterCommit db) (doc m)) m, [DocGet (doc m)])
      else (m, []))"

text \<open>\<open>updateModelWithTransactionState\<close> (lines 449-460).\<close>

definition updateModelWithTransactionState :: "TransactionState \<Rightarrow> Model \<Rightarrow> Model" where
  "updateModelWithTransactionState st m =
     (let m1 = m\<lparr> actionsRun := s_actionsRun st, errors := s_errors st,
                  lastRunStatus := s_lastRunStatus st \<rparr>;
          m2 = (case s_syncData st of Some r \<Rightarrow> syncData r m1 | None \<Rightarrow> m1)
      in if ar_delete (s_actionsRun st) then resetRawData [] m2 else m2)"

text \<open>
  The \<open>try\<close> and \<open>catch\<close> blocks of \<open>run\<close> (lines 467-488), given what \<open>buildTransaction\<close>
  returned: the error thrown if any, the model, the I/O and the messages logged.
\<close>

definition runTry ::
  "Db \<Rightarrow> RunConfig \<Rightarrow> tx_result \<Rightarrow> Model \<Rightarrow> error option \<times> Model \<times> io list \<times> string list"
where
  "runTry db cfg r m =
     (case r of
        TxSkipped lg \<Rightarrow> (None, m, [], lg)
      | TxAborted e ops lg \<Rightarrow>
          (Some e, m, [RunTransaction ops False],
           lg @ [''Something went wrong with the latest push''])
      | TxCommitted st ops lg \<Rightarrow>
          (let m1 = manageLastRunStatus (updateModelWithTransactionState st m)
           in case errors m1 of
                e # es \<Rightarrow>
                  (Some e, m1, [RunTransaction ops True],
                   lg @ [''Something went wrong with the latest push''])
              | [] \<Rightarrow>
                  (let (m2, ios) = forceGetIfNeeded db cfg m1
                   in (None, m2\<lparr>hasRunSuccessfully := True, actions := []\<rparr>,
                       RunTransaction ops True # ios, lg))))"

text \<open>The \<open>finally\<close> block of \<open>run\<close> (lines 489-495).\<close>

definition runFinally :: "Model \<Rightarrow> Model" where
  "runFinally m =
     (setCurrentConfig emptyConfig m)\<lparr> errors := [], lastRunStatus := None,
        actionsRun := noActionsRun \<rparr>"

text \<open>
  \<open>run\<close> (lines 465-498). \<open>runWith\<close> is its body given the outcome \<open>r\<close> of the awaited
  \<open>buildTransaction\<close>; \<open>maxAttempts\<close> goes to the host, which repeats the attempt on
  contention.
\<close>

definition runWith ::
  "Db \<Rightarrow> RunConfig \<Rightarrow> tx_result \<Rightarrow> Model \<Rightarrow> error option \<times> Model \<times> io list \<times> string list"
where
  "runWith db cfg r m =
     (let (e, m1, ios, lg) = runTry db cfg r (setCurrentConfig cfg m)
      in (e, runFinally m1, ios, lg))"

definition run :: "Db \<Rightarrow> RunConfig \<Rightarrow> Model \<Rightarrow> error option \<times> Model \<times> io list \<times> string list"
where
  "run db cfg m =
     runWith db cfg (buildTransaction db (forceGet cfg = Some True) (setCurrentConfig cfg m)) m"

subsection \<open>The Model: queueing mutations\<close>

text \<open>
  \<open>delete\<close> (lines 500-517). With keys, they are taken in order; the exception of a
  protected key leaves the model as the earlier keys made it.
\<close>

fun deleteKeys :: "string list \<Rightarrow> Model \<Rightarrow> error option \<times> Model" where
  "deleteKeys [] m = (None, m)"
| "deleteKeys (key # keys) m =
     (if isBaseProp key then (Some (ProtectedField key), m)
      else deleteKeys keys (proxyDelete key m))"

definition delete :: "string list option \<Rightarrow> Model \<Rightarrow> error option \<times> Model" where
  "delete keys m =
     (case keys of
        Some ks \<Rightarrow> deleteKeys ks m
      | None \<Rightarrow> (None, resetRawData (rawData m) (m\<lparr>actions := actions m @ [Delete]\<rparr>)))"

text \<open>\<open>update\<close> (lines 522-536).\<close>

definition updateEntry :: "string \<times> val \<Rightarrow> Model \<Rightarrow> Model" where
  "updateEntry e m = proxySet (fst e) (snd e) (m\<lparr>actions := actions m @ [Update [e]]\<rparr>)"

definition update :: "fields \<Rightarrow> Model \<Rightarrow> Model" where
  "update dat m = (if isEmpty dat then m else fold updateEntry dat m)"

text \<open>\<open>create\<close> (lines 538-545).\<close>

definition create :: "fields \<Rightarrow> bool \<Rightarrow> Model \<Rightarrow> Model" where
  "create dat force m =
     resetRawData (spread (rawData m) dat)
       (m\<lparr>actions := actions m @ [if force then Create dat else FindOrCreate dat]\<rparr>)"

text \<open>\<open>attach\<close> (lines 551-557).\<close>

definition attach :: "(fields \<Rightarrow> action list) \<Rightarrow> Model \<Rightarrow> Model" where
  "attach callback m = m\<lparr>actions := actions m @ [Callback callback]\<rparr>"

subsection \<open>Fields written by an action, and example models\<close>

text \<open>The payload an action folds into the data: none for the other kinds.\<close>

fun payload :: "action \<Rightarrow> fields" where
  "payload (Update d) = d"
| "payload (Create d) = d"
| "payload (FindOrCreate d) = d"
| "payload a = []"

text \<open>
  A schema with one numeric prop \<open>a\<close>, mirroring and validation switched on by default;
  a fresh model of document \<open>users/u1\<close>, the same model with data loaded, and models
  of a schema that mirrors the fields \<open>a\<close> and \<open>b\<close> under the key \<open>profile.user\<close> of the
  document of collection \<open>cache\<close> named by the field \<open>owner\<close>.
\<close>

definition exDoc :: docref where
  "exDoc = DocRef ''users'' (VStr ''u1'')"

definition exConfig :: RunConfig where
  "exConfig = \<lparr> maxAttempts = None, forceGet = None, mirrorOn = Some True,
     autoValidate = Some True \<rparr>"

definition isNum :: "val option \<Rightarrow> bool" where
  "isNum v = (case v of Some (VNum n) \<Rightarrow> True | _ \<Rightarrow> False)"

definition exSchema :: Schema where
  "exSchema = \<lparr> ref = ''users'', config = exConfig, mirror = None,
     codecProps = [(''a'', isNum)] \<rparr>"

definition exModel :: Model where
  "exModel = \<lparr> actions = [], rawData = [], currentRunConfig = exConfig, errors = [],
     lastRunStatus = None, existsViaCreation = False, actionsRun = noActionsRun,
     hasRunSuccessfully = False, doc = exDoc, model_id = VStr ''u1'', snap = None,
     schema = exSchema \<rparr>"

definition exLoaded :: Model where
  "exLoaded = exModel\<lparr>rawData := [(''a'', VNum 0), (''b'', VNum 7)]\<rparr>"

definition exRule :: SchemaCacheRules where
  "exRule = \<lparr> collection = ''cache'', name = ''profile.user'', idField = Some ''owner'',
     fields_list = [''a'', ''b''] \<rparr>"

definition exMirrorFresh :: Model where
  "exMirrorFresh = exModel\<lparr>schema := exSchema\<lparr>mirror := Some exRule\<rparr>\<rparr>"

definition exMirrorModel :: Model where
  "exMirrorModel = exMirrorFresh\<lparr>rawData := [(''owner'', VStr ''o1''), (''a'', VNum 0)]\<rparr>"

definition exDb :: Db where
  "exDb = \<lparr> docs = (\<lambda>d. if d = exDoc
                        then Some [(''a'', VNum 0), (''b'', VNum 7), (''owner'', VStr ''o1'')]
                        else None),
     queryFirst = (\<lambda>c cs. None),
     docsAfterCommit = (\<lambda>d. None) \<rparr>"

text \<open>
  A rule that mirrors under the plain key \<open>user\<close> of the document named by the model's own
  id, and a model of the first rule whose local data lacks the id-field \<open>owner\<close>.
\<close>

definition exPlainRule :: SchemaCacheRules where
  "exPlainRule = \<lparr> collection = ''cache'', name = ''user'', idField = None,
     fields_list = [''a'', ''b''] \<rparr>"

definition exPlainMirror :: Model where
  "exPlainMirror = exLoaded\<lparr>schema := exSchema\<lparr>mirror := Some exPlainRule\<rparr>\<rparr>"

definition exMirrorNoOwner :: Model where
  "exMirrorNoOwner = exMirrorFresh\<lparr>rawData := [(''a'', VNum 0)]\<rparr>"

text \<open>A callback that enqueues an update of \<open>a\<close>.\<close>

definition exCallback :: "fields \<Rightarrow> action list" where
  "exCallback d = [Update [(''a'', VNum 9)]]"

lemmas ex_defs = exModel_def exLoaded_def exSchema_def exConfig_def exDoc_def exDb_def
  exRule_def exMirrorModel_def exMirrorFresh_def isNum_def

section \<open>Properties\<close>

subsection \<open>Field maps\<close>

lemma map_of_spread: "map_of (spread a b) = map_of a ++ map_of (rev b)"
  unfolding spread_def
  by (induction b arbitrary: a) (auto simp: update_conv')

lemma map_of_pick: "map_of (pick ks obj) k = (if k \<in> set ks then map_of obj k else None)"
proof -
  have "map_of (List.map_filter (\<lambda>k. map_option (Pair k) (map_of obj k)) xs) k
      = (if k \<in> set xs then map_of obj k else None)" for xs
    by (induction xs) (auto simp: List.map_filter_simps split: option.splits)
  from this [of "remdups ks"] show ?thesis by (simp add: pick_def)
qed

lemma map_of_fold_delete: "map_of (fold AList.delete ks al) = map_of al |` (- set ks)"
  by (induction ks arbitrary: al) (auto simp: delete_conv' restrict_map_def fun_eq_iff)

lemma set_serverUpdateTimestamp:
  "fst ` set (serverUpdateTimestamp [(k, v)]) \<subseteq> {k, ''updatedAt''}"
  by (auto simp: serverUpdateTimestamp_def spread_def)

lemma applyAction_other:
  "k \<notin> fst ` set (payload a) \<Longrightarrow> map_of (applyAction a acc) k = map_of acc k"
proof -
  have "k \<notin> fst ` set d \<Longrightarrow> (map_of acc ++ map_of (rev d)) k = map_of acc k" for d
    by (simp add: map_add_def map_of_eq_None_iff [THEN iffD2])
  then show "k \<notin> fst ` set (payload a) \<Longrightarrow> map_of (applyAction a acc) k = map_of acc k"
    by (cases a) (simp_all add: map_of_spread)
qed

lemma fold_applyAction_other:
  "\<forall>a\<in>set as. k \<notin> fst ` set (payload a) \<Longrightarrow>
   map_of (fold applyAction as acc) k = map_of acc k"
  by (induction as arbitrary: acc) (simp_all add: applyAction_other)

lemma last_write:
  assumes "\<forall>a\<in>set post. k \<notin> fst ` set (payload a)"
  shows "map_of (buildUpdatedData False rd (pre @ Update [(k, v)] # post)) k = Some v"
  using assms by (simp add: buildUpdatedData_def fold_applyAction_other map_of_spread)

subsection \<open>Fields after each step of a run\<close>

lemma mergeConfig_empty: "mergeConfig a emptyConfig = a"
  by (simp add: mergeConfig_def emptyConfig_def orElse_def)

lemma setCurrentConfig_fields:
  "actions (setCurrentConfig c m) = actions m" "rawData (setCurrentConfig c m) = rawData m"
  "hasRunSuccessfully (setCurrentConfig c m) = hasRunSuccessfully m"
  "existsViaCreation (setCurrentConfig c m) = existsViaCreation m"
  "schema (setCurrentConfig c m) = schema m" "doc (setCurrentConfig c m) = doc m"
  by (simp_all add: setCurrentConfig_def)

lemma runFinally_fields:
  "errors (runFinally m) = []" "lastRunStatus (runFinally m) = None"
  "actionsRun (runFinally m) = noActionsRun"
  "currentRunConfig (runFinally m) = config (schema m)"
  "actions (runFinally m) = actions m" "rawData (runFinally m) = rawData m"
  "existsViaCreation (runFinally m) = existsViaCreation m"
  "hasRunSuccessfully (runFinally m) = hasRunSuccessfully m"
  "doc (runFinally m) = doc m" "model_id (runFinally m) = model_id m"
  "snap (runFinally m) = snap m" "schema (runFinally m) = schema m"
  by (simp_all add: runFinally_def setCurrentConfig_def mergeConfig_empty)

lemma runFinally_idle:
  "errors m = [] \<Longrightarrow> lastRunStatus m = None \<Longrightarrow> actionsRun m = noActionsRun \<Longrightarrow>
   currentRunConfig m = config (schema m) \<Longrightarrow> runFinally m = m"
  by (simp add: runFinally_def setCurrentConfig_def mergeConfig_empty)

lemma syncData_fields:
  "errors (syncData r m) = errors m" "actions (syncData r m) = actions m"
  "lastRunStatus (syncData r m) = lastRunStatus m" "actionsRun (syncData r m) = actionsRun m"
  "hasRunSuccessfully (syncData r m) = hasRunSuccessfully m"
  "existsViaCreation (syncData r m) = existsViaCreation m"
  "schema (syncData r m) = schema m"
  "rawData (syncData r m) = (case rec_data r of Some d \<Rightarrow> d | None \<Rightarrow> rawData m)"
  by (simp_all add: syncData_def resetRawData_def)

lemma updateModel_fields:
  "errors (updateModelWithTransactionState st m) = s_errors st"
  "actionsRun (updateModelWithTransactionState st m) = s_actionsRun st"
  "lastRunStatus (updateModelWithTransactionState st m) = s_lastRunStatus st"
  "actions (updateModelWithTransactionState st m) = actions m"
  "hasRunSuccessfully (updateModelWithTransactionState st m) = hasRunSuccessfully m"
  "schema (updateModelWithTransactionState st m) = schema m"
  "ar_delete (s_actionsRun st) \<Longrightarrow> rawData (updateModelWithTransactionState st m) = []"
  by (simp_all add: updateModelWithTransactionState_def Let_def resetRawData_def syncData_fields
      split: option.splits)

lemma manageLastRunStatus_fields:
  "errors (manageLastRunStatus m) = errors m" "actions (manageLastRunStatus m) = actions m"
  "lastRunStatus (manageLastRunStatus m) = lastRunStatus m"
  "actionsRun (manageLastRunStatus m) = actionsRun m"
  "hasRunSuccessfully (manageLastRunStatus m) = hasRunSuccessfully m"
  "schema (manageLastRunStatus m) = schema m"
  "rawData (manageLastRunStatus m) = rawData m"
  by (simp_all add: manageLastRunStatus_def split: option.splits)

lemma createTransactionState_fields:
  "s_rawData (createTransactionState rd) = rd" "s_actions (createTransactionState rd) = []"
  "s_errors (createTransactionState rd) = []"
  "s_actionsRun (createTransactionState rd) = noActionsRun"
  by (simp_all add: createTransactionState_def)

lemma getTransaction_fields:
  "snd (getTransaction db d nd st) = [TGet d]"
  "s_errors (fst (getTransaction db d nd st)) = s_errors st"
  "s_actions (fst (getTransaction db d nd st)) = s_actions st"
  "ar_create (s_actionsRun (fst (getTransaction db d nd st))) = ar_create (s_actionsRun st)"
  "ar_forceCreate (s_actionsRun (fst (getTransaction db d nd st)))
     = ar_forceCreate (s_actionsRun st)"
  "ar_delete (s_actionsRun (fst (getTransaction db d nd st))) = ar_delete (s_actionsRun st)"
  by (simp_all add: getTransaction_def Let_def)

lemma getTransaction_status:
  "s_lastRunStatus (fst (getTransaction db d nd st))
     = Some (if docs db d \<noteq> None then Found else NotFound)"
  "s_syncData (fst (getTransaction db d False st)) = Some (getRecord (docs db) d)"
  by (simp_all add: getTransaction_def Let_def getRecord_def)

lemma updateTransaction_status:
  "s_lastRunStatus (fst (updateTransaction d dat st)) = Some Updated"
  by (simp add: updateTransaction_def)

subsection \<open>Branches of the transaction\<close>

lemma buildTransaction_delete:
  "actionsContainDelete (actions m) \<Longrightarrow>
   buildTransaction db ag m = deleteBranch db m (createTransactionState (rawData m))"
  by (auto simp: buildTransaction_def isEmpty_def actionsContainDelete_def Let_def)

lemma deleteBranch_eq:
  "deleteBranch db m st =
     TxCommitted
       (fst (deleteTransaction (doc m)
          (if (case getIdFieldFromSchema (schema m) of None \<Rightarrow> False
               | Some f \<Rightarrow> f \<noteq> [] \<and> \<not> truthy (map_of (rawData m) f))
           then fst (getTransaction db (doc m) False st) else st)))
       ((if (case getIdFieldFromSchema (schema m) of None \<Rightarrow> False
               | Some f \<Rightarrow> f \<noteq> [] \<and> \<not> truthy (map_of (rawData m) f))
         then [TGet (doc m)] else [])
        @ fst (mirrorTransaction m MirrorDelete) @ [TDelete (doc m)])
       (snd (mirrorTransaction m MirrorDelete))"
  by (simp add: deleteBranch_def Let_def deleteTransaction_def getTransaction_def
      split: prod.splits)

lemma createBranch_ok:
  "throwIfInvalid m = None \<Longrightarrow>
   createBranch m force d st pre =
     TxCommitted (fst (createTransaction (doc m) d force st))
       (pre @ (if force then TSet (doc m) d False else TCreate (doc m) d)
            # fst (mirrorTransaction m (MirrorData d)))
       (snd (mirrorTransaction m (MirrorData d)))"
  by (simp add: createBranch_def createTransaction_def split: prod.splits)

lemma updateBranch_ok:
  "throwIfInvalid m = None \<Longrightarrow> dat \<noteq> [] \<Longrightarrow>
   updateBranch db False m dat st pre =
     TxCommitted (fst (updateTransaction (doc m) dat st))
       (pre @ TUpdate (doc m) dat # fst (mirrorTransaction m (MirrorData dat)))
       (snd (mirrorTransaction m (MirrorData dat)))"
  by (simp add: updateBranch_def updateTransaction_def isEmpty_def split: prod.splits)

lemma updateBranch_empty:
  "updateBranch db False m [] st pre = TxCommitted st pre []"
  by (simp add: updateBranch_def isEmpty_def)

lemma buildTransaction_findOrCreate_found:
  assumes "actions m = [FindOrCreate p]" "docs db (doc m) = Some stored"
  shows "buildTransaction db False m =
     updateBranch db False m (buildUpdatedData False (rawData m) (actions m))
       (fst (getTransaction db (doc m) False (createTransactionState (rawData m))))
       [TGet (doc m)]"
  using assms
  by (simp add: buildTransaction_def isEmpty_def actionsContainDelete_def
      actionsContainCallback_def actionsContainFind_def actionsContainFindOrCreate_def
      actionsContainCreate_def Let_def case_prod_beta getTransaction_fields
      getTransaction_status snapshotExists_def getRecord_def createTransactionState_fields)

lemma isUpdate_only:
  "isUpdate a \<Longrightarrow>
   \<not> isDelete a \<and> \<not> isCallback a \<and> \<not> isFind a \<and> \<not> isFindOrCreate a \<and> \<not> isCreate a"
  by (cases a) simp_all

lemma buildTransaction_updates_only:
  assumes "actions m \<noteq> []" "list_all isUpdate (actions m)"
  shows "buildTransaction db False m =
     updateBranch db False m (buildUpdatedData False (rawData m) (actions m))
       (createTransactionState (rawData m)) []"
proof -
  have n: "\<not> list_ex isDelete (actions m)" "\<not> list_ex isCallback (actions m)"
    "\<not> list_ex isFind (actions m)" "\<not> list_ex isFindOrCreate (actions m)"
    "\<not> list_ex isCreate (actions m)"
    using assms(2) isUpdate_only by (auto simp: list_all_iff list_ex_iff)
  have q: "findQueryAction as = None" if "list_all isUpdate as" for as
    using that by (induction as rule: findQueryAction.induct) simp_all
  show ?thesis
    using assms(1) n q [OF assms(2)]
    by (simp add: buildTransaction_def isEmpty_def actionsContainDelete_def
        actionsContainCallback_def actionsContainFind_def actionsContainFindOrCreate_def
        actionsContainCreate_def Let_def createTransactionState_fields)
qed

subsection \<open>Outcomes of the mirror step\<close>

lemma mirrorTransaction_skip:
  "\<not> canMirror m \<Longrightarrow> mirrorTransaction m a = ([], [])"
  "canMirror m \<Longrightarrow> mirror (schema m) = Some rule \<Longrightarrow> \<not> truthy (mirrorId m rule) \<Longrightarrow>
     mirrorTransaction m a = ([], [''Mirroring failed due to no provided id''])"
  "canMirror m \<Longrightarrow> mirror (schema m) = Some rule \<Longrightarrow> truthy (mirrorId m rule) \<Longrightarrow>
     buildMirrorData u (fields_list rule) = [] \<Longrightarrow>
     mirrorTransaction m (MirrorData u) = ([], [''No data passed into the model''])"
  by (simp_all add: mirrorTransaction_def isEmpty_def)

lemma mirrorTransaction_delete:
  "canMirror m \<Longrightarrow> mirror (schema m) = Some rule \<Longrightarrow> mirrorId m rule = Some mid \<Longrightarrow>
   truthy (Some mid) \<Longrightarrow>
   mirrorTransaction m MirrorDelete =
     ([TSet (DocRef (collection rule) mid)
         (serverUpdateTimestamp [(name rule, VFieldDelete)]) True], [])"
  by (simp add: mirrorTransaction_def)

lemma mirrorTransaction_data:
  "canMirror m \<Longrightarrow> mirror (schema m) = Some rule \<Longrightarrow> mirrorId m rule = Some mid \<Longrightarrow>
   truthy (Some mid) \<Longrightarrow> buildMirrorData u (fields_list rule) \<noteq> [] \<Longrightarrow>
   mirrorTransaction m (MirrorData u) =
     ((if includesDot (name rule)
       then [TUpdate (DocRef (collection rule) mid)
               (serverUpdateTimestamp
                  [(name rule, VObj (removeUndefined (buildMirrorData u (fields_list rule))))])]
       else [])
      @ [TSet (DocRef (collection rule) mid)
           (serverUpdateTimestamp
              [(name rule, VObj (removeUndefined (buildMirrorData u (fields_list rule))))])
           True],
      [])"
  by (simp add: mirrorTransaction_def isEmpty_def Let_def)

lemma mirrorTransaction_cases:
  obtains (off) "\<not> canMirror m" "mirrorTransaction m a = ([], [])"
  | (noid) rule where "canMirror m" "mirror (schema m) = Some rule"
      "\<not> truthy (mirrorId m rule)"
      "mirrorTransaction m a = ([], [''Mirroring failed due to no provided id''])"
  | (marker) rule mid where "canMirror m" "mirror (schema m) = Some rule"
      "mirrorId m rule = Some mid" "truthy (Some mid)" "a = MirrorDelete"
      "mirrorTransaction m a =
        ([TSet (DocRef (collection rule) mid)
            (serverUpdateTimestamp [(name rule, VFieldDelete)]) True], [])"
  | (nodata) rule mid u where "canMirror m" "mirror (schema m) = Some rule"
      "mirrorId m rule = Some mid" "truthy (Some mid)" "a = MirrorData u"
      "buildMirrorData u (fields_list rule) = []"
      "mirrorTransaction m a = ([], [''No data passed into the model''])"
  | (wr) rule mid u where "canMirror m" "mirror (schema m) = Some rule"
      "mirrorId m rule = Some mid" "truthy (Some mid)" "a = MirrorData u"
      "buildMirrorData u (fields_list rule) \<noteq> []"
      "mirrorTransaction m a =
        ((if includesDot (name rule)
          then [TUpdate (DocRef (collection rule) mid)
               (serverUpdateTimestamp
                  [(name rule, VObj (removeUndefined (buildMirrorData u (fields_list rule))))])]
          else [])
         @ [TSet (DocRef (collection rule) mid)
           (serverUpdateTimestamp
              [(name rule, VObj (removeUndefined (buildMirrorData u (fields_list rule))))])
           True],
         [])"
proof (cases "canMirror m")
  case False
  then show ?thesis using off mirrorTransaction_skip(1) by blast
next
  case cm: True
  then obtain rule where r: "mirror (schema m) = Some rule"
    by (auto simp: canMirror_def)
  show ?thesis
  proof (cases "truthy (mirrorId m rule)")
    case False
    then show ?thesis using noid cm r mirrorTransaction_skip(2) by blast
  next
    case t: True
    then obtain mid where mid: "mirrorId m rule = Some mid"
      by (cases "mirrorId m rule") auto
    show ?thesis
    proof (cases a)
      case MirrorDelete
      then show ?thesis
        using marker [OF cm r mid] t mid mirrorTransaction_delete [OF cm r mid] by simp
    next
      case (MirrorData u)
      show ?thesis
      proof (cases "buildMirrorData u (fields_list rule) = []")
        case True
        then show ?thesis
          using nodata [OF cm r mid _ MirrorData] t mid mirrorTransaction_skip(3) [OF cm r]
            MirrorData by simp
      next
        case False
        then show ?thesis
          using wr [OF cm r mid _ MirrorData] t mid mirrorTransaction_data [OF cm r mid]
            MirrorData by simp
      qed
    qed
  qed
qed

subsection \<open>Outcomes of run\<close>

lemma runWith_skipped:
  "runWith db cfg (TxSkipped lg) m = (None, runFinally m, [], lg)"
proof -
  have "runFinally (setCurrentConfig cfg m) = runFinally m"
    by (simp add: runFinally_def setCurrentConfig_def)
  then show ?thesis
    by (simp add: runWith_def runTry_def)
qed

lemma runWith_aborted:
  "runWith db cfg (TxAborted e ops lg) m =
     (Some e, runFinally m, [RunTransaction ops False],
      lg @ [''Something went wrong with the latest push''])"
proof -
  have "runFinally (setCurrentConfig cfg m) = runFinally m"
    by (simp add: runFinally_def setCurrentConfig_def)
  then show ?thesis
    by (simp add: runWith_def runTry_def)
qed

lemma runWith_state_error:
  "s_errors st = e # es \<Longrightarrow>
   runWith db cfg (TxCommitted st ops lg) m =
     (Some e,
      runFinally (manageLastRunStatus
        (updateModelWithTransactionState st (setCurrentConfig cfg m))),
      [RunTransaction ops True], lg @ [''Something went wrong with the latest push''])"
  by (simp add: runWith_def runTry_def Let_def manageLastRunStatus_fields updateModel_fields)

lemma runWith_success:
  "s_errors st = [] \<Longrightarrow>
   runWith db cfg (TxCommitted st ops lg) m =
     (None,
      runFinally ((fst (forceGetIfNeeded db cfg
          (manageLastRunStatus (updateModelWithTransactionState st (setCurrentConfig cfg m)))))
          \<lparr>hasRunSuccessfully := True, actions := []\<rparr>),
      RunTransaction ops True
        # snd (forceGetIfNeeded db cfg
          (manageLastRunStatus (updateModelWithTransactionState st (setCurrentConfig cfg m)))),
      lg)"
  by (simp add: runWith_def runTry_def Let_def manageLastRunStatus_fields updateModel_fields
      case_prod_beta)

lemma runWith_is_runFinally:
  "\<exists>m1. fst (snd (runWith db cfg r m)) = runFinally m1 \<and> schema m1 = schema m"
proof (cases r)
  case (TxSkipped lg)
  then show ?thesis by (auto simp: runWith_skipped)
next
  case (TxAborted e ops lg)
  then show ?thesis by (auto simp: runWith_aborted)
next
  case (TxCommitted st ops lg)
  have sc: "schema (fst (forceGetIfNeeded db cfg x)) = schema x" for x
    by (simp add: forceGetIfNeeded_def syncData_fields)
  show ?thesis
  proof (cases "s_errors st")
    case Nil
    show ?thesis
      unfolding TxCommitted runWith_success [OF Nil]
      by (rule exI, rule conjI, simp,
          simp add: sc manageLastRunStatus_fields updateModel_fields setCurrentConfig_fields)
  next
    case (Cons e es)
    show ?thesis
      unfolding TxCommitted runWith_state_error [OF Cons]
      by (rule exI, rule conjI, simp,
          simp add: manageLastRunStatus_fields updateModel_fields setCurrentConfig_fields)
  qed
qed

lemma runWith_delete:
  assumes "ar_delete (s_actionsRun st)" "s_errors st = []"
    "\<not> ar_create (s_actionsRun st)" "\<not> ar_forceCreate (s_actionsRun st)"
  shows "fst (runWith db cfg (TxCommitted st ops lg) m) = None
    \<and> rawData (fst (snd (runWith db cfg (TxCommitted st ops lg) m))) = []"
  using assms
  by (simp add: runWith_def runTry_def Let_def forceGetIfNeeded_def runFinally_fields
      manageLastRunStatus_fields updateModel_fields)

subsection \<open>Queueing\<close>

lemma actions_update: "actions (update p m) = actions m @ map (\<lambda>e. Update [e]) p"
proof -
  have "actions (fold updateEntry p m) = actions m @ map (\<lambda>e. Update [e]) p" for m
    by (induction p arbitrary: m) (simp_all add: updateEntry_def proxySet_def)
  then show ?thesis by (simp add: update_def isEmpty_def)
qed

lemma update_empty: "update [] m = m"
  by (simp add: update_def isEmpty_def)

lemma deleteKeys_error:
  "fst (deleteKeys ks m) = map_option ProtectedField (find isBaseProp ks)"
  by (induction ks arbitrary: m) simp_all

lemma deleteKeys_actions: "actions (snd (deleteKeys ks m)) = actions m"
  by (induction ks arbitrary: m) (simp_all add: proxyDelete_def)

lemma deleteKeys_protected:
  "\<forall>k\<in>set pre. \<not> isBaseProp k \<Longrightarrow> isBaseProp p \<Longrightarrow>
   deleteKeys (pre @ p # post) m =
     (Some (ProtectedField p), m\<lparr>rawData := fold AList.delete pre (rawData m)\<rparr>)"
  by (induction pre arbitrary: m) (simp_all add: proxyDelete_def)

subsection \<open>The example models evaluated\<close>

lemma exMirror_facts:
  "canMirror exMirrorModel" "mirror (schema exMirrorModel) = Some exRule"
  "mirrorId exMirrorModel exRule = Some (VStr ''o1'')"
  "throwIfInvalid exMirrorModel = None" "doc exMirrorModel = exDoc"
  by (simp_all add: canMirror_def mirrorId_def throwIfInvalid_def validate_def
      actionsContainCreate_def actionsContainFindOrCreate_def actionsContainUpdate_def
      decode_def omitBaseFields_def isBaseProp_def baseProps_def ex_defs)

lemma exMirror_write:
  "mirrorTransaction exMirrorModel (MirrorData [(''a'', VNum 1), (''c'', VNum 2)]) =
     ([TUpdate (DocRef ''cache'' (VStr ''o1''))
        [(''profile.user'', VObj [(''a'', VNum 1)]), (''updatedAt'', VServerTimestamp)],
       TSet (DocRef ''cache'' (VStr ''o1''))
        [(''profile.user'', VObj [(''a'', VNum 1)]), (''updatedAt'', VServerTimestamp)] True],
      [])"
proof -
  have b: "buildMirrorData [(''a'', VNum 1), (''c'', VNum 2)] (fields_list exRule)
      = [(''a'', VNum 1)]"
    by (simp add: buildMirrorData_def pick_def List.map_filter_def exRule_def)
  show ?thesis
    unfolding mirrorTransaction_data [OF exMirror_facts(1,2,3), of "[(''a'', VNum 1), (''c'', VNum 2)]", unfolded b, simplified]
    by (simp add: exRule_def includesDot_def serverUpdateTimestamp_def spread_def
        removeUndefined_def)
qed

lemma exCreated_facts:
  "actions (create [(''a'', VNum 1)] False exModel) = [FindOrCreate [(''a'', VNum 1)]]"
  "rawData (create [(''a'', VNum 1)] False exModel) = [(''a'', VNum 1)]"
  "doc (create [(''a'', VNum 1)] False exModel) = exDoc"
  "throwIfInvalid (create [(''a'', VNum 1)] False exModel) = None"
  "mirrorTransaction (create [(''a'', VNum 1)] False exModel) a = ([], [])"
  "buildUpdatedData False (rawData (create [(''a'', VNum 1)] False exModel))
     (actions (create [(''a'', VNum 1)] False exModel)) = [(''a'', VNum 1)]"
  "docs exDb exDoc = Some [(''a'', VNum 0), (''b'', VNum 7), (''owner'', VStr ''o1'')]"
  by (simp_all add: create_def resetRawData_def spread_def throwIfInvalid_def validate_def
      actionsContainCreate_def actionsContainFindOrCreate_def decode_def omitBaseFields_def
      isBaseProp_def baseProps_def mirrorTransaction_def canMirror_def buildUpdatedData_def
      ex_defs)

lemma exCreated_tx:
  "buildTransaction exDb False (create [(''a'', VNum 1)] False exModel) =
     TxCommitted
       \<lparr> s_rawData = [(''a'', VNum 0), (''b'', VNum 7), (''owner'', VStr ''o1'')], s_actions = [],
         s_actionsRun = noActionsRun\<lparr>ar_get := True, ar_update := True\<rparr>,
         s_errors = [], s_lastRunStatus = Some Updated,
         s_syncData = Some (getRecord (docs exDb) exDoc) \<rparr>
       [TGet exDoc, TUpdate exDoc [(''a'', VNum 1)]] []"
proof -
  let ?n = "create [(''a'', VNum 1)] False exModel"
  have "buildTransaction exDb False ?n =
     updateBranch exDb False ?n (buildUpdatedData False (rawData ?n) (actions ?n))
       (fst (getTransaction exDb (doc ?n) False (createTransactionState (rawData ?n))))
       [TGet (doc ?n)]"
    by (rule buildTransaction_findOrCreate_found [OF exCreated_facts(1)])
      (simp add: exCreated_facts)
  then show ?thesis
    unfolding exCreated_facts(6) unfolding exCreated_facts(2,3)
    by (simp add: exCreated_facts(5,7) updateBranch_ok [OF exCreated_facts(4)]
        exCreated_facts(3) updateTransaction_def getTransaction_def
        createTransactionState_def getRecord_def Let_def noActionsRun_def)
qed

lemma exCreated_run:
  "fst (snd (snd (run exDb emptyConfig (create [(''a'', VNum 1)] False exModel))))
     = [RunTransaction [TGet exDoc, TUpdate exDoc [(''a'', VNum 1)]] True]"
proof -
  let ?n = "create [(''a'', VNum 1)] False exModel"
  have c: "setCurrentConfig emptyConfig ?n = ?n"
    by (simp add: setCurrentConfig_def mergeConfig_empty create_def resetRawData_def ex_defs)
  obtain st where b: "buildTransaction exDb False ?n =
          TxCommitted st [TGet exDoc, TUpdate exDoc [(''a'', VNum 1)]] []"
      and e: "s_errors st = []"
    using exCreated_tx by simp
  have f: "forceGet emptyConfig \<noteq> Some True"
    by (simp add: emptyConfig_def)
  show ?thesis
    using f by (simp add: run_def c b runWith_success [OF e] forceGetIfNeeded_def)
qed

lemma isUpdate_or_isCallback_only:
  "isUpdate a \<or> isCallback a \<Longrightarrow>
   \<not> isDelete a \<and> \<not> isFind a \<and> \<not> isFindOrCreate a \<and> \<not> isCreate a"
  by (cases a) simp_all

lemma buildTransaction_updates_callbacks:
  assumes "list_all (\<lambda>a. isUpdate a \<or> isCallback a) (actions m)"
    "actionsContainCallback (actions m)"
  shows "buildTransaction db False m =
     updateBranch db False m
       (buildUpdatedData False
          (s_rawData (runCallbacks (actions m)
             (fst (getTransaction db (doc m) False (createTransactionState (rawData m))))))
          (actions m @ s_actions (runCallbacks (actions m)
             (fst (getTransaction db (doc m) False (createTransactionState (rawData m)))))))
       (runCallbacks (actions m)
          (fst (getTransaction db (doc m) False (createTransactionState (rawData m)))))
       [TGet (doc m)]"
proof -
  have n: "\<not> list_ex isDelete (actions m)"
    "\<not> list_ex isFind (actions m)" "\<not> list_ex isFindOrCreate (actions m)"
    "\<not> list_ex isCreate (actions m)"
    using assms(1) isUpdate_or_isCallback_only by (auto simp: list_all_iff list_ex_iff)
  have q: "findQueryAction as = None" if "list_all (\<lambda>a. isUpdate a \<or> isCallback a) as" for as
    using that by (induction as rule: findQueryAction.induct) simp_all
  have e: "actions m \<noteq> []"
    using assms(2) by (auto simp: actionsContainCallback_def)
  show ?thesis
    using assms(2) e n q [OF assms(1)]
    by (simp add: buildTransaction_def isEmpty_def actionsContainDelete_def
        actionsContainFind_def actionsContainFindOrCreate_def
        actionsContainCreate_def Let_def case_prod_beta getTransaction_fields)
qed

lemma exAttached_facts:
  "actions (attach exCallback (update [(''a'', VNum 1)] exModel))
     = [Update [(''a'', VNum 1)], Callback exCallback]"
  "rawData (attach exCallback (update [(''a'', VNum 1)] exModel)) = [(''a'', VNum 1)]"
  "doc (attach exCallback (update [(''a'', VNum 1)] exModel)) = exDoc"
  "schema (attach exCallback (update [(''a'', VNum 1)] exModel)) = exSchema"
  "currentRunConfig (attach exCallback (update [(''a'', VNum 1)] exModel)) = exConfig"
  by (simp_all add: attach_def update_def isEmpty_def updateEntry_def proxySet_def ex_defs)

lemma exAttached_valid:
  "throwIfInvalid (attach exCallback (update [(''a'', VNum 1)] exModel)) = None"
  by (simp add: throwIfInvalid_def validate_def exAttached_facts actionsContainCreate_def
      actionsContainFindOrCreate_def actionsContainUpdate_def buildUpdatedData_def spread_def
      decode_def pickProps_def pick_def List.map_filter_def omitBaseFields_def isBaseProp_def
      baseProps_def exSchema_def exConfig_def isNum_def)

lemma exAttached_state:
  "s_rawData (runCallbacks (actions (attach exCallback (update [(''a'', VNum 1)] exModel)))
     (fst (getTransaction exDb exDoc False (createTransactionState [(''a'', VNum 1)]))))
   = [(''a'', VNum 0), (''b'', VNum 7), (''owner'', VStr ''o1'')]"
  "s_actions (runCallbacks (actions (attach exCallback (update [(''a'', VNum 1)] exModel)))
     (fst (getTransaction exDb exDoc False (createTransactionState [(''a'', VNum 1)]))))
   = [Update [(''a'', VNum 9)]]"
  by (simp_all add: runCallbacks_def getTransaction_def getRecord_def Let_def
      createTransactionState_def exAttached_facts exCallback_def exDb_def)

lemma exAttached_data:
  "buildUpdatedData False [(''a'', VNum 0), (''b'', VNum 7), (''owner'', VStr ''o1'')]
     [Update [(''a'', VNum 1)], Callback exCallback, Update [(''a'', VNum 9)]]
   = [(''a'', VNum 9), (''b'', VNum 7), (''owner'', VStr ''o1'')]"
  by (simp add: buildUpdatedData_def spread_def)

lemma exUpdated_facts:
  "actions (update [(''a'', VNum 5)] (update [(''a'', VNum 1), (''b'', VNum 2)] exModel))
     = [Update [(''a'', VNum 1)], Update [(''b'', VNum 2)], Update [(''a'', VNum 5)]]"
  "rawData (update [(''a'', VNum 5)] (update [(''a'', VNum 1), (''b'', VNum 2)] exModel))
     = [(''a'', VNum 5), (''b'', VNum 2)]"
  "doc (update [(''a'', VNum 5)] (update [(''a'', VNum 1), (''b'', VNum 2)] exModel)) = exDoc"
  by (simp_all add: update_def isEmpty_def updateEntry_def proxySet_def ex_defs)

lemma exUpdated_valid:
  "throwIfInvalid (update [(''a'', VNum 5)] (update [(''a'', VNum 1), (''b'', VNum 2)] exModel))
     = None"
proof -
  let ?n = "update [(''a'', VNum 5)] (update [(''a'', VNum 1), (''b'', VNum 2)] exModel)"
  have s: "schema ?n = exSchema" "currentRunConfig ?n = exConfig"
    by (simp_all add: update_def isEmpty_def updateEntry_def proxySet_def ex_defs)
  show ?thesis
    by (simp add: throwIfInvalid_def validate_def exUpdated_facts s actionsContainCreate_def
        actionsContainFindOrCreate_def actionsContainUpdate_def buildUpdatedData_def spread_def
        decode_def pickProps_def pick_def List.map_filter_def omitBaseFields_def isBaseProp_def
        baseProps_def exSchema_def exConfig_def isNum_def)
qed

lemma exInvalid_facts:
  "actions (create [(''a'', VStr ''x'')] True exModel) = [Create [(''a'', VStr ''x'')]]"
  "rawData (create [(''a'', VStr ''x'')] True exModel) = [(''a'', VStr ''x'')]"
  "setCurrentConfig emptyConfig (create [(''a'', VStr ''x'')] True exModel)
     = create [(''a'', VStr ''x'')] True exModel"
  "runFinally (create [(''a'', VStr ''x'')] True exModel)
     = create [(''a'', VStr ''x'')] True exModel"
  "throwIfInvalid (create [(''a'', VStr ''x'')] True exModel) = Some ValidationError"
  by (simp_all add: create_def resetRawData_def spread_def setCurrentConfig_def
      mergeConfig_empty runFinally_def throwIfInvalid_def validate_def actionsContainCreate_def
      decode_def omitBaseFields_def isBaseProp_def baseProps_def ex_defs)

lemma exInvalid_tx:
  "buildTransaction exDb False (create [(''a'', VStr ''x'')] True exModel)
     = TxAborted ValidationError [] []"
  by (simp add: buildTransaction_def isEmpty_def exInvalid_facts actionsContainDelete_def
      actionsContainCallback_def actionsContainFind_def actionsContainFindOrCreate_def
      actionsContainCreate_def Let_def createBranch_def)

lemma buildMirrorData_Nil: "buildMirrorData [] fs = []"
  by (simp add: buildMirrorData_def pick_def List.map_filter_def)

lemma keys_buildMirrorData: "fst ` set (buildMirrorData u fs) \<subseteq> set fs"
  by (auto simp: buildMirrorData_def pick_def List.map_filter_def)

lemma exPlain_facts:
  "canMirror exPlainMirror" "mirror (schema exPlainMirror) = Some exPlainRule"
  "mirrorId exPlainMirror exPlainRule = Some (VStr ''u1'')"
  by (simp_all add: canMirror_def mirrorId_def exPlainMirror_def exPlainRule_def ex_defs)

lemma exNoOwner_facts:
  "canMirror exMirrorNoOwner" "mirror (schema exMirrorNoOwner) = Some exRule"
  "mirrorId exMirrorNoOwner exRule = None"
  "throwIfInvalid exMirrorNoOwner = None" "doc exMirrorNoOwner = exDoc"
  by (simp_all add: canMirror_def mirrorId_def throwIfInvalid_def validate_def
      actionsContainCreate_def actionsContainFindOrCreate_def actionsContainUpdate_def
      decode_def omitBaseFields_def isBaseProp_def baseProps_def exMirrorNoOwner_def ex_defs)

lemma exMirror_payloads:
  "buildMirrorData [(''a'', VNum 1), (''c'', VNum 2)] [''a'', ''b''] = [(''a'', VNum 1)]"
  "buildMirrorData [(''c'', VNum 2)] [''a'', ''b''] = []"
  "buildMirrorData [(''a'', VNum 1)] [''a'', ''b''] = [(''a'', VNum 1)]"
  "serverUpdateTimestamp [(''profile.user'', VObj (removeUndefined [(''a'', VNum 1)]))]
     = [(''profile.user'', VObj [(''a'', VNum 1)]), (''updatedAt'', VServerTimestamp)]"
  "serverUpdateTimestamp [(''user'', VObj (removeUndefined [(''a'', VNum 1)]))]
     = [(''user'', VObj [(''a'', VNum 1)]), (''updatedAt'', VServerTimestamp)]"
  "includesDot ''profile.user''" "\<not> includesDot ''user''"
  by (simp_all add: buildMirrorData_def pick_def List.map_filter_def serverUpdateTimestamp_def
      spread_def removeUndefined_def includesDot_def)

lemma exRule_fields:
  "fields_list exRule = [''a'', ''b'']" "name exRule = ''profile.user''"
  "collection exRule = ''cache''"
  "fields_list exPlainRule = [''a'', ''b'']" "name exPlainRule = ''user''"
  "collection exPlainRule = ''cache''"
  by (simp_all add: exRule_def exPlainRule_def)

section \<open>The claims\<close>

text \<open>
  C1, as the code has it: after \<open>create(data, force=false)\<close> on a model whose document
  exists, the attempt reads the document and issues no create. It then goes on to the
  update step: when the folded data is empty nothing is written and the status is found;
  otherwise, validation passing, the folded data is written to the document by an update
  and the status is updated. The folded data holds every field of the payload with the
  payload's value, and is not empty when the payload is not.
\<close>

theorem findOrCreate_existing:
  assumes "actions m = [FindOrCreate p]" "docs db (doc m) = Some stored"
  shows "(buildUpdatedData False (rawData m) (actions m) = [] \<longrightarrow>
            (\<exists>st. buildTransaction db False m = TxCommitted st [TGet (doc m)] []
                \<and> s_lastRunStatus st = Some Found))
       \<and> (buildUpdatedData False (rawData m) (actions m) \<noteq> [] \<and> throwIfInvalid m = None \<longrightarrow>
            (\<exists>st. buildTransaction db False m =
                 TxCommitted st
                   (TGet (doc m) # TUpdate (doc m) (buildUpdatedData False (rawData m) (actions m))
                      # fst (mirrorTransaction m
                              (MirrorData (buildUpdatedData False (rawData m) (actions m)))))
                   (snd (mirrorTransaction m
                              (MirrorData (buildUpdatedData False (rawData m) (actions m)))))
                \<and> s_lastRunStatus st = Some Updated))
       \<and> (p \<noteq> [] \<longrightarrow> buildUpdatedData False (rawData m) (actions m) \<noteq> [])
       \<and> (\<forall>k v. map_of (rev p) k = Some v \<longrightarrow>
             map_of (buildUpdatedData False (rawData m) (actions m)) k = Some v)"
proof (intro conjI impI allI)
  assume "buildUpdatedData False (rawData m) (actions m) = []"
  then show "\<exists>st. buildTransaction db False m = TxCommitted st [TGet (doc m)] []
                \<and> s_lastRunStatus st = Some Found"
    using assms(2)
    by (simp add: buildTransaction_findOrCreate_found [OF assms] updateBranch_empty
        getTransaction_status)
next
  assume "buildUpdatedData False (rawData m) (actions m) \<noteq> [] \<and> throwIfInvalid m = None"
  then show "\<exists>st. buildTransaction db False m =
                 TxCommitted st
                   (TGet (doc m) # TUpdate (doc m) (buildUpdatedData False (rawData m) (actions m))
                      # fst (mirrorTransaction m
                              (MirrorData (buildUpdatedData False (rawData m) (actions m)))))
                   (snd (mirrorTransaction m
                              (MirrorData (buildUpdatedData False (rawData m) (actions m)))))
                \<and> s_lastRunStatus st = Some Updated"
    by (simp add: buildTransaction_findOrCreate_found [OF assms] updateBranch_ok
        updateTransaction_status)
next
  fix k v assume "map_of (rev p) k = Some v"
  then show "map_of (buildUpdatedData False (rawData m) (actions m)) k = Some v"
    by (simp add: assms(1) buildUpdatedData_def map_of_spread)
next
  assume "p \<noteq> []"
  then obtain k v where "(k, v) \<in> set (rev p)" by (cases p) auto
  then obtain v' where "map_of (rev p) k = Some v'"
    using weak_map_of_SomeI by fastforce
  then have "map_of (buildUpdatedData False (rawData m) (actions m)) k = Some v'"
    by (simp add: assms(1) buildUpdatedData_def map_of_spread)
  then show "buildUpdatedData False (rawData m) (actions m) \<noteq> []" by auto
qed

text \<open>
  C1 as stated fails: the stored document has \<open>a = 0\<close>; \<open>create({a: 1}, false)\<close> and
  \<open>run()\<close> read it and then update it with \<open>a = 1\<close>, and the status is updated, not found.
\<close>

theorem findOrCreate_existing_overwrites:
  "docs exDb exDoc = Some [(''a'', VNum 0), (''b'', VNum 7), (''owner'', VStr ''o1'')]
   \<and> buildTransaction exDb False (create [(''a'', VNum 1)] False exModel) =
     TxCommitted
       \<lparr> s_rawData = [(''a'', VNum 0), (''b'', VNum 7), (''owner'', VStr ''o1'')], s_actions = [],
         s_actionsRun = noActionsRun\<lparr>ar_get := True, ar_update := True\<rparr>,
         s_errors = [], s_lastRunStatus = Some Updated,
         s_syncData = Some (getRecord (docs exDb) exDoc) \<rparr>
       [TGet exDoc, TUpdate exDoc [(''a'', VNum 1)]] []
   \<and> fst (snd (snd (run exDb emptyConfig (create [(''a'', VNum 1)] False exModel))))
     = [RunTransaction [TGet exDoc, TUpdate exDoc [(''a'', VNum 1)]] True]"
  by (simp add: exCreated_tx exCreated_run exCreated_facts(7))

theorem findOrCreate_existing_witness:
  "\<exists>st. buildTransaction exDb False (create [(''a'', VNum 1)] False exModel) =
          TxCommitted st [TGet exDoc, TUpdate exDoc [(''a'', VNum 1)]] []
        \<and> s_lastRunStatus st = Some Updated"
  using findOrCreate_existing [OF exCreated_facts(1), of exDb
      "[(''a'', VNum 0), (''b'', VNum 7), (''owner'', VStr ''o1'')]",
      unfolded exCreated_facts(6)]
  by (simp add: exCreated_facts(3,4,5,7))

text \<open>
  C2, as the code has it: \<open>delete()\<close> with no argument appends a Delete action to the
  action log and leaves the local raw data as it was when queued
  (\<open>resetRawData(this.rawData)\<close>); the local data is emptied when \<open>run()\<close> reconciles the
  state of the transaction that ran the delete, and that run succeeds.
\<close>

theorem delete_no_args_keeps_view_until_run:
  "delete None m = (None, m\<lparr>actions := actions m @ [Delete]\<rparr>)
   \<and> rawData (snd (delete None m)) = rawData m
   \<and> fst (run db cfg (snd (delete None m))) = None
   \<and> rawData (fst (snd (run db cfg (snd (delete None m))))) = []"
proof -
  let ?m = "m\<lparr>actions := actions m @ [Delete]\<rparr>"
  let ?n = "setCurrentConfig cfg ?m"
  have d: "delete None m = (None, ?m)"
    by (simp add: delete_def resetRawData_def)
  have c: "actionsContainDelete (actions ?n)"
    by (simp add: actionsContainDelete_def setCurrentConfig_def)
  have b: "buildTransaction db (forceGet cfg = Some True) ?n
      = deleteBranch db ?n (createTransactionState (rawData ?n))"
    using c by (rule buildTransaction_delete)
  have "\<exists>st ops lg. buildTransaction db (forceGet cfg = Some True) ?n = TxCommitted st ops lg
      \<and> ar_delete (s_actionsRun st) \<and> s_errors st = []
      \<and> \<not> ar_create (s_actionsRun st) \<and> \<not> ar_forceCreate (s_actionsRun st)"
    unfolding b deleteBranch_eq
    by (simp add: deleteTransaction_def getTransaction_fields createTransactionState_def
        noActionsRun_def)
  then obtain st ops lg
    where r: "buildTransaction db (forceGet cfg = Some True) ?n = TxCommitted st ops lg"
    and st: "ar_delete (s_actionsRun st)" "s_errors st = []"
      "\<not> ar_create (s_actionsRun st)" "\<not> ar_forceCreate (s_actionsRun st)"
    by blast
  have "fst (run db cfg ?m) = None \<and> rawData (fst (snd (run db cfg ?m))) = []"
    unfolding run_def r by (rule runWith_delete [OF st])
  then show ?thesis
    by (simp add: d)
qed

text \<open>
  C2 as stated fails: queueing \<open>delete()\<close> on a model holding \<open>a\<close> and \<open>b\<close> leaves both in
  the local view.
\<close>

theorem delete_no_args_view_not_emptied:
  "actions (snd (delete None exLoaded)) = [Delete]
   \<and> rawData (snd (delete None exLoaded)) = [(''a'', VNum 0), (''b'', VNum 7)]"
  by (simp add: delete_def resetRawData_def ex_defs)

text \<open>
  C3, as the code has it: every write of the mirror step goes to the mirror document of
  the rule, carries only the configured key and the update timestamp, and is a \<open>set\<close>
  with \<open>merge: true\<close> or, for a create or update under a key containing a dot, an
  \<open>update\<close>; none is a \<open>set\<close> without merge, a create or a delete of the document. The
  delete marker is such a merge \<open>set\<close>.
\<close>

theorem mirror_writes_never_replace:
  assumes "w \<in> set (fst (mirrorTransaction m a))"
  shows "\<exists>rule mid p. mirror (schema m) = Some rule \<and> mirrorId m rule = Some mid
           \<and> fst ` set p \<subseteq> {name rule, ''updatedAt''}
           \<and> (w = TSet (DocRef (collection rule) mid) p True
              \<or> (w = TUpdate (DocRef (collection rule) mid) p \<and> includesDot (name rule)
                  \<and> a \<noteq> MirrorDelete))"
proof (cases m a rule: mirrorTransaction_cases)
  case off
  with assms show ?thesis by simp
next
  case (noid rule)
  with assms show ?thesis by simp
next
  case (marker rule mid)
  with assms show ?thesis
    using set_serverUpdateTimestamp by fastforce
next
  case (nodata rule mid u)
  with assms show ?thesis by simp
next
  case (wr rule mid u)
  with assms show ?thesis
    using set_serverUpdateTimestamp [of "name rule"] by (fastforce split: if_splits)
qed

text \<open>
  C3 as stated fails for a key with a dot: under \<open>profile.user\<close> the mirror step first
  issues \<open>transaction.update\<close>, which is not a \<open>set\<close> with \<open>merge: true\<close>.
\<close>

theorem mirror_dot_key_issues_update:
  "fst (mirrorTransaction exMirrorModel (MirrorData [(''a'', VNum 1), (''c'', VNum 2)])) =
     [TUpdate (DocRef ''cache'' (VStr ''o1''))
        [(''profile.user'', VObj [(''a'', VNum 1)]), (''updatedAt'', VServerTimestamp)],
      TSet (DocRef ''cache'' (VStr ''o1''))
        [(''profile.user'', VObj [(''a'', VNum 1)]), (''updatedAt'', VServerTimestamp)] True]"
  by (simp add: exMirror_write)

theorem mirror_writes_never_replace_witness:
  "TUpdate (DocRef ''cache'' (VStr ''o1''))
        [(''profile.user'', VObj [(''a'', VNum 1)]), (''updatedAt'', VServerTimestamp)]
     \<in> set (fst (mirrorTransaction exMirrorModel (MirrorData [(''a'', VNum 1), (''c'', VNum 2)])))
   \<and> (\<exists>rule mid p. mirror (schema exMirrorModel) = Some rule
         \<and> mirrorId exMirrorModel rule = Some mid
         \<and> fst ` set p \<subseteq> {name rule, ''updatedAt''}
         \<and> (TUpdate (DocRef ''cache'' (VStr ''o1''))
               [(''profile.user'', VObj [(''a'', VNum 1)]), (''updatedAt'', VServerTimestamp)]
              = TSet (DocRef (collection rule) mid) p True
            \<or> (TUpdate (DocRef ''cache'' (VStr ''o1''))
                 [(''profile.user'', VObj [(''a'', VNum 1)]), (''updatedAt'', VServerTimestamp)]
                = TUpdate (DocRef (collection rule) mid) p \<and> includesDot (name rule)
                \<and> MirrorData [(''a'', VNum 1), (''c'', VNum 2)] \<noteq> MirrorDelete)))"
proof -
  have h: "TUpdate (DocRef ''cache'' (VStr ''o1''))
        [(''profile.user'', VObj [(''a'', VNum 1)]), (''updatedAt'', VServerTimestamp)]
     \<in> set (fst (mirrorTransaction exMirrorModel (MirrorData [(''a'', VNum 1), (''c'', VNum 2)])))"
    by (simp add: exMirror_write)
  show ?thesis
    using h mirror_writes_never_replace [OF h] by blast
qed

text \<open>
  C4: \<open>update(payload)\<close> appends one Update action per field of the payload, in order,
  and nothing for an empty payload. In the data folded from an action list a field holds
  the value of its last update (no later action of the list writes the field), whatever
  precedes. The transaction writes that folded data to the document: for a log of
  updates the fold of the log, and for a log of updates and callbacks the fold of the log
  followed by the actions the callbacks enqueue.
\<close>

theorem update_last_write_wins:
  "actions (update p m) = actions m @ map (\<lambda>e. Update [e]) p
   \<and> update [] m = m
   \<and> ((\<forall>a \<in> set post. k \<notin> fst ` set (payload a)) \<longrightarrow>
        map_of (buildUpdatedData False rd (pre @ Update [(k, v)] # post)) k = Some v)
   \<and> (actions m \<noteq> [] \<and> list_all isUpdate (actions m) \<and> throwIfInvalid m = None
        \<and> buildUpdatedData False (rawData m) (actions m) \<noteq> [] \<longrightarrow>
        (\<exists>st ws lg. buildTransaction db False m =
           TxCommitted st
             (TUpdate (doc m) (buildUpdatedData False (rawData m) (actions m)) # ws) lg))
   \<and> (list_all (\<lambda>a. isUpdate a \<or> isCallback a) (actions m)
        \<and> actionsContainCallback (actions m) \<and> throwIfInvalid m = None
        \<and> st = runCallbacks (actions m)
                 (fst (getTransaction db (doc m) False (createTransactionState (rawData m))))
        \<and> buildUpdatedData False (s_rawData st) (actions m @ s_actions st) \<noteq> [] \<longrightarrow>
        (\<exists>st' ws lg. buildTransaction db False m =
           TxCommitted st'
             (TGet (doc m)
                # TUpdate (doc m) (buildUpdatedData False (s_rawData st) (actions m @ s_actions st))
                # ws) lg))"
proof (intro conjI impI)
  show "actions (update p m) = actions m @ map (\<lambda>e. Update [e]) p"
    by (rule actions_update)
  show "update [] m = m"
    by (rule update_empty)
  show "map_of (buildUpdatedData False rd (pre @ Update [(k, v)] # post)) k = Some v"
    if "\<forall>a \<in> set post. k \<notin> fst ` set (payload a)"
    using that by (rule last_write)
  show "\<exists>st ws lg. buildTransaction db False m =
           TxCommitted st
             (TUpdate (doc m) (buildUpdatedData False (rawData m) (actions m)) # ws) lg"
    if "actions m \<noteq> [] \<and> list_all isUpdate (actions m) \<and> throwIfInvalid m = None
        \<and> buildUpdatedData False (rawData m) (actions m) \<noteq> []"
    using that by (simp add: buildTransaction_updates_only updateBranch_ok)
  show "\<exists>st' ws lg. buildTransaction db False m =
           TxCommitted st'
             (TGet (doc m)
                # TUpdate (doc m) (buildUpdatedData False (s_rawData st) (actions m @ s_actions st))
                # ws) lg"
    if h: "list_all (\<lambda>a. isUpdate a \<or> isCallback a) (actions m)
        \<and> actionsContainCallback (actions m) \<and> throwIfInvalid m = None
        \<and> st = runCallbacks (actions m)
                 (fst (getTransaction db (doc m) False (createTransactionState (rawData m))))
        \<and> buildUpdatedData False (s_rawData st) (actions m @ s_actions st) \<noteq> []"
  proof -
    have "buildTransaction db False m =
        updateBranch db False m (buildUpdatedData False (s_rawData st) (actions m @ s_actions st))
          st [TGet (doc m)]"
      using h buildTransaction_updates_callbacks [of m db] by simp
    moreover have "throwIfInvalid m = None"
      and "buildUpdatedData False (s_rawData st) (actions m @ s_actions st) \<noteq> []"
      using h by blast+
    ultimately show ?thesis
      using updateBranch_ok [of m "buildUpdatedData False (s_rawData st) (actions m @ s_actions st)"
          db st "[TGet (doc m)]"]
      by auto
  qed
qed

theorem update_last_write_wins_witness:
  "actions (update [(''a'', VNum 5)] (update [(''a'', VNum 1), (''b'', VNum 2)] exModel))
     = [Update [(''a'', VNum 1)], Update [(''b'', VNum 2)], Update [(''a'', VNum 5)]]
   \<and> map_of (buildUpdatedData False []
        [Update [(''a'', VNum 1)], Update [(''b'', VNum 2)], Update [(''a'', VNum 5)]]) ''a''
       = Some (VNum 5)
   \<and> (\<exists>st ws lg. buildTransaction exDb False
          (update [(''a'', VNum 5)] (update [(''a'', VNum 1), (''b'', VNum 2)] exModel)) =
        TxCommitted st (TUpdate exDoc [(''a'', VNum 5), (''b'', VNum 2)] # ws) lg)
   \<and> (\<exists>st ws lg. buildTransaction exDb False
          (attach exCallback (update [(''a'', VNum 1)] exModel)) =
        TxCommitted st
          (TGet exDoc
             # TUpdate exDoc [(''a'', VNum 9), (''b'', VNum 7), (''owner'', VStr ''o1'')] # ws) lg)"
proof -
  let ?n = "update [(''a'', VNum 5)] (update [(''a'', VNum 1), (''b'', VNum 2)] exModel)"
  let ?c = "attach exCallback (update [(''a'', VNum 1)] exModel)"
  let ?s = "runCallbacks (actions ?c)
     (fst (getTransaction exDb (doc ?c) False (createTransactionState (rawData ?c))))"
  have d: "buildUpdatedData False (rawData ?n) (actions ?n) = [(''a'', VNum 5), (''b'', VNum 2)]"
    by (simp add: exUpdated_facts buildUpdatedData_def spread_def)
  have l: "actions ?n \<noteq> []" "list_all isUpdate (actions ?n)"
    by (simp_all add: exUpdated_facts)
  have 1: "\<exists>st ws lg. buildTransaction exDb False ?n =
        TxCommitted st (TUpdate exDoc [(''a'', VNum 5), (''b'', VNum 2)] # ws) lg"
    using update_last_write_wins [where m = ?n and db = exDb, unfolded d] l exUpdated_valid
    by (simp add: exUpdated_facts(3))
  have 2: "map_of (buildUpdatedData False []
        [Update [(''a'', VNum 1)], Update [(''b'', VNum 2)], Update [(''a'', VNum 5)]]) ''a''
       = Some (VNum 5)"
    using update_last_write_wins
      [where post = "[]" and k = "''a''" and rd = "[]" and v = "VNum 5"
         and pre = "[Update [(''a'', VNum 1)], Update [(''b'', VNum 2)]]"]
    by simp
  have sd: "buildUpdatedData False (s_rawData ?s) (actions ?c @ s_actions ?s)
      = [(''a'', VNum 9), (''b'', VNum 7), (''owner'', VStr ''o1'')]"
    unfolding exAttached_facts(2,3) exAttached_state
    by (simp add: exAttached_facts(1) exAttached_data)
  have lc: "list_all (\<lambda>a. isUpdate a \<or> isCallback a) (actions ?c)"
    "actionsContainCallback (actions ?c)"
    by (simp_all add: exAttached_facts actionsContainCallback_def)
  have 3: "\<exists>st ws lg. buildTransaction exDb False ?c =
        TxCommitted st
          (TGet exDoc
             # TUpdate exDoc [(''a'', VNum 9), (''b'', VNum 7), (''owner'', VStr ''o1'')] # ws) lg"
    using update_last_write_wins [where m = ?c and db = exDb and st = ?s, unfolded sd]
      lc exAttached_valid
    by (simp add: exAttached_facts(3))
  show ?thesis
    using 1 2 3 by (simp add: exUpdated_facts(1))
qed

text \<open>
  C5: \<open>delete(keys)\<close> with a protected base field among the keys throws, from the call
  itself, which issues no I/O, the protected-field error of the first protected key of
  the list, and the action log is as it was: no action is queued for any key.
\<close>

theorem delete_protected_key_throws:
  assumes "k \<in> set keys" "isBaseProp k"
  shows "\<exists>p. find isBaseProp keys = Some p
           \<and> fst (delete (Some keys) m) = Some (ProtectedField p)
           \<and> actions (snd (delete (Some keys) m)) = actions m"
proof -
  obtain p where "find isBaseProp keys = Some p"
    using assms by (cases "find isBaseProp keys") (auto simp: find_None_iff)
  then show ?thesis
    by (simp add: delete_def deleteKeys_error deleteKeys_actions)
qed

theorem delete_protected_key_throws_witness:
  "find isBaseProp [''a'', ''schemaVersion'', ''b''] = Some ''schemaVersion''
   \<and> fst (delete (Some [''a'', ''schemaVersion'', ''b'']) exLoaded)
     = Some (ProtectedField ''schemaVersion'')
   \<and> actions (snd (delete (Some [''a'', ''schemaVersion'', ''b'']) exLoaded)) = []"
proof -
  have k: "''schemaVersion'' \<in> set [''a'', ''schemaVersion'', ''b'']"
    "isBaseProp ''schemaVersion''"
    by (simp_all add: isBaseProp_def baseProps_def)
  have f: "find isBaseProp [''a'', ''schemaVersion'', ''b''] = Some ''schemaVersion''"
    by (simp add: isBaseProp_def baseProps_def)
  show ?thesis
    using delete_protected_key_throws [OF k, of exLoaded] f
    by (auto simp: ex_defs)
qed

text \<open>
  C6: whatever the transaction returned or threw, when \<open>run()\<close> ends the errors, the
  last run status, the actions run and the run configuration hold their idle values.
  When \<open>run()\<close> throws, the error is the one of the transaction or the first recorded in
  its state; the action log is not cleared and no success is recorded; after an aborted
  transaction the model is as before the run, and after recorded errors the local data
  is as reconciliation left it: nothing is rolled back.
\<close>

theorem run_cleanup:
  assumes "runWith db cfg r m = (e, m', ios, lg)"
  shows "errors m' = [] \<and> lastRunStatus m' = None \<and> actionsRun m' = noActionsRun
     \<and> currentRunConfig m' = config (schema m) \<and> schema m' = schema m
     \<and> (\<forall>err ops l. r = TxAborted err ops l \<longrightarrow>
           e = Some err \<and> m' = runFinally m \<and> rawData m' = rawData m \<and> actions m' = actions m
           \<and> hasRunSuccessfully m' = hasRunSuccessfully m
           \<and> existsViaCreation m' = existsViaCreation m)
     \<and> (\<forall>st ops l err es. r = TxCommitted st ops l \<and> s_errors st = err # es \<longrightarrow>
           e = Some err \<and> actions m' = actions m
           \<and> hasRunSuccessfully m' = hasRunSuccessfully m
           \<and> rawData m' = rawData (updateModelWithTransactionState st m))
     \<and> (e \<noteq> None \<longrightarrow> actions m' = actions m \<and> hasRunSuccessfully m' = hasRunSuccessfully m)
     \<and> run db cfg m =
         runWith db cfg (buildTransaction db (forceGet cfg = Some True) (setCurrentConfig cfg m)) m"
proof -
  obtain m1 where m1: "m' = runFinally m1" "schema m1 = schema m"
    using runWith_is_runFinally [of db cfg r m] assms by auto
  have rd: "rawData (updateModelWithTransactionState st (setCurrentConfig cfg m))
      = rawData (updateModelWithTransactionState st m)" for st
    by (simp add: updateModelWithTransactionState_def Let_def setCurrentConfig_def syncData_def
        resetRawData_def split: option.splits)
  have a: "\<forall>err ops l. r = TxAborted err ops l \<longrightarrow>
           e = Some err \<and> m' = runFinally m \<and> rawData m' = rawData m \<and> actions m' = actions m
           \<and> hasRunSuccessfully m' = hasRunSuccessfully m
           \<and> existsViaCreation m' = existsViaCreation m"
    using assms by (auto simp: runWith_aborted runFinally_fields)
  have b: "\<forall>st ops l err es. r = TxCommitted st ops l \<and> s_errors st = err # es \<longrightarrow>
           e = Some err \<and> actions m' = actions m
           \<and> hasRunSuccessfully m' = hasRunSuccessfully m
           \<and> rawData m' = rawData (updateModelWithTransactionState st m)"
    using assms
    by (auto simp: runWith_state_error runFinally_fields manageLastRunStatus_fields
        updateModel_fields rd setCurrentConfig_fields)
  have c: "e \<noteq> None \<longrightarrow> actions m' = actions m \<and> hasRunSuccessfully m' = hasRunSuccessfully m"
  proof (cases r)
    case (TxSkipped l)
    then show ?thesis using assms by (simp add: runWith_skipped)
  next
    case (TxAborted err ops l)
    then show ?thesis using a by (simp add: runFinally_fields)
  next
    case (TxCommitted st ops l)
    show ?thesis
    proof (cases "s_errors st")
      case Nil
      then show ?thesis using assms TxCommitted by (simp add: runWith_success)
    next
      case (Cons err es)
      then show ?thesis using b TxCommitted by blast
    qed
  qed
  have t: "errors m' = [] \<and> lastRunStatus m' = None \<and> actionsRun m' = noActionsRun
     \<and> currentRunConfig m' = config (schema m) \<and> schema m' = schema m"
    by (simp add: m1 runFinally_fields)
  have d: "run db cfg m =
         runWith db cfg (buildTransaction db (forceGet cfg = Some True) (setCurrentConfig cfg m)) m"
    by (simp add: run_def)
  show ?thesis
    using t a b c d by blast
qed

theorem run_cleanup_witness:
  "run exDb emptyConfig (create [(''a'', VStr ''x'')] True exModel) =
     (Some ValidationError, create [(''a'', VStr ''x'')] True exModel,
      [RunTransaction [] False], [''Something went wrong with the latest push''])
   \<and> errors (create [(''a'', VStr ''x'')] True exModel) = []
   \<and> lastRunStatus (create [(''a'', VStr ''x'')] True exModel) = None
   \<and> actionsRun (create [(''a'', VStr ''x'')] True exModel) = noActionsRun
   \<and> rawData (create [(''a'', VStr ''x'')] True exModel) = [(''a'', VStr ''x'')]
   \<and> actions (create [(''a'', VStr ''x'')] True exModel) = [Create [(''a'', VStr ''x'')]]"
proof -
  let ?n = "create [(''a'', VStr ''x'')] True exModel"
  have f: "(forceGet emptyConfig = Some True) = False"
    by (simp add: emptyConfig_def)
  have r: "runWith exDb emptyConfig (TxAborted ValidationError [] []) ?n =
      (Some ValidationError, ?n, [RunTransaction [] False],
       [''Something went wrong with the latest push''])"
    by (simp add: runWith_aborted exInvalid_facts(4))
  show ?thesis
    using run_cleanup [OF r] r
    by (simp add: exInvalid_facts(1,2,3) exInvalid_tx f)
qed

text \<open>
  C7: with an empty action log and no \<open>forceGet\<close> in the configuration given, \<open>run()\<close>
  starts no transaction and issues no read or write; it logs one message and resolves
  with the model, whose log, data and document are as before and whose per-run fields
  hold their idle values, so that a model between runs is returned unchanged.
\<close>

theorem run_empty_log_no_io:
  assumes "actions m = []" "forceGet cfg \<noteq> Some True"
  shows "run db cfg m =
           (None,
            m\<lparr> currentRunConfig := config (schema m), errors := [], lastRunStatus := None,
               actionsRun := noActionsRun \<rparr>,
            [], [''No data to process for this model''])
     \<and> (errors m = [] \<and> lastRunStatus m = None \<and> actionsRun m = noActionsRun
          \<and> currentRunConfig m = config (schema m) \<longrightarrow>
        run db cfg m = (None, m, [], [''No data to process for this model'']))"
proof -
  have b: "buildTransaction db (forceGet cfg = Some True) (setCurrentConfig cfg m)
      = TxSkipped [''No data to process for this model'']"
    using assms by (simp add: buildTransaction_def isEmpty_def setCurrentConfig_def)
  have r: "run db cfg m = (None, runFinally m, [], [''No data to process for this model''])"
    by (simp add: run_def b runWith_skipped)
  have f: "runFinally m = m\<lparr> currentRunConfig := config (schema m), errors := [],
      lastRunStatus := None, actionsRun := noActionsRun \<rparr>"
    by (simp add: runFinally_def setCurrentConfig_def mergeConfig_empty)
  show ?thesis
    using r f runFinally_idle [of m] by simp
qed

theorem run_empty_log_no_io_witness:
  "run exDb emptyConfig exLoaded = (None, exLoaded, [], [''No data to process for this model''])"
proof -
  have h: "actions exLoaded = []" "forceGet emptyConfig \<noteq> Some True"
    by (simp_all add: ex_defs emptyConfig_def)
  have i: "errors exLoaded = [] \<and> lastRunStatus exLoaded = None
          \<and> actionsRun exLoaded = noActionsRun
          \<and> currentRunConfig exLoaded = config (schema exLoaded)"
    by (simp add: ex_defs)
  show ?thesis
    using run_empty_log_no_io [OF h, of exDb] i by blast
qed

text \<open>
  C8: in a create or update mirror step the payload is the updates restricted to the
  rule's selected fields. With a mirror id and a non-empty restricted payload the step
  writes that payload under the rule's key to the mirror document: a merge \<open>set\<close>,
  preceded by an \<open>update\<close> when the key contains a dot, and these writes follow the
  create or update of the primary document in the attempt. When the mirror id is
  missing, or else the restricted payload is empty, the step writes nothing and logs
  the message of that case; the attempt is not aborted and the create or update of the
  primary document is its only write.
\<close>

theorem mirror_filter_and_skip:
  assumes "canMirror m" "mirror (schema m) = Some rule"
  shows "(\<forall>k. map_of (buildMirrorData u (fields_list rule)) k
              = (if k \<in> set (fields_list rule) then map_of u k else None))
    \<and> fst ` set (buildMirrorData u (fields_list rule)) \<subseteq> set (fields_list rule)
    \<and> (\<forall>w \<in> set (fst (mirrorTransaction m (MirrorData u))). \<exists>d.
          w = TSet d (serverUpdateTimestamp
                 [(name rule, VObj (removeUndefined (buildMirrorData u (fields_list rule))))]) True
        \<or> w = TUpdate d (serverUpdateTimestamp
                 [(name rule, VObj (removeUndefined (buildMirrorData u (fields_list rule))))]))
    \<and> (\<forall>mid. mirrorId m rule = Some mid \<and> truthy (Some mid)
           \<and> buildMirrorData u (fields_list rule) \<noteq> [] \<longrightarrow>
          mirrorTransaction m (MirrorData u) =
            ((if includesDot (name rule)
              then [TUpdate (DocRef (collection rule) mid)
                      (serverUpdateTimestamp
                         [(name rule,
                           VObj (removeUndefined (buildMirrorData u (fields_list rule))))])]
              else [])
             @ [TSet (DocRef (collection rule) mid)
                  (serverUpdateTimestamp
                     [(name rule,
                       VObj (removeUndefined (buildMirrorData u (fields_list rule))))])
                  True],
             [])
        \<and> (throwIfInvalid m = None \<longrightarrow>
             (\<exists>st. createBranch m force u st0 pre =
                TxCommitted st
                  (pre @ (if force then TSet (doc m) u False else TCreate (doc m) u)
                     # fst (mirrorTransaction m (MirrorData u))) [])
           \<and> (\<exists>st. updateBranch db False m u st0 pre =
                TxCommitted st
                  (pre @ TUpdate (doc m) u # fst (mirrorTransaction m (MirrorData u))) [])))
    \<and> (\<not> truthy (mirrorId m rule) \<longrightarrow>
          mirrorTransaction m (MirrorData u) = ([], [''Mirroring failed due to no provided id'']))
    \<and> (truthy (mirrorId m rule) \<and> buildMirrorData u (fields_list rule) = [] \<longrightarrow>
          mirrorTransaction m (MirrorData u) = ([], [''No data passed into the model'']))
    \<and> (buildMirrorData u (fields_list rule) = [] \<or> \<not> truthy (mirrorId m rule) \<longrightarrow>
          fst (mirrorTransaction m (MirrorData u)) = []
        \<and> (snd (mirrorTransaction m (MirrorData u)) = [''No data passed into the model'']
           \<or> snd (mirrorTransaction m (MirrorData u))
                = [''Mirroring failed due to no provided id''])
        \<and> (throwIfInvalid m = None \<longrightarrow>
             (\<exists>st. createBranch m force u st0 pre =
                TxCommitted st
                  (pre @ [if force then TSet (doc m) u False else TCreate (doc m) u])
                  (snd (mirrorTransaction m (MirrorData u))))
           \<and> (u \<noteq> [] \<longrightarrow> (\<exists>st. updateBranch db False m u st0 pre =
                TxCommitted st (pre @ [TUpdate (doc m) u])
                  (snd (mirrorTransaction m (MirrorData u)))))))"
proof -
  let ?dat = "buildMirrorData u (fields_list rule)"
  have c1: "\<forall>k. map_of ?dat k = (if k \<in> set (fields_list rule) then map_of u k else None)"
    by (simp add: buildMirrorData_def map_of_pick)
  have c2: "fst ` set ?dat \<subseteq> set (fields_list rule)"
    by (rule keys_buildMirrorData)
  have c3: "\<forall>w \<in> set (fst (mirrorTransaction m (MirrorData u))). \<exists>d.
          w = TSet d (serverUpdateTimestamp [(name rule, VObj (removeUndefined ?dat))]) True
        \<or> w = TUpdate d (serverUpdateTimestamp [(name rule, VObj (removeUndefined ?dat))])"
  proof
    fix w assume "w \<in> set (fst (mirrorTransaction m (MirrorData u)))"
    then show "\<exists>d.
          w = TSet d (serverUpdateTimestamp [(name rule, VObj (removeUndefined ?dat))]) True
        \<or> w = TUpdate d (serverUpdateTimestamp [(name rule, VObj (removeUndefined ?dat))])"
      using assms
      by (cases m "MirrorData u" rule: mirrorTransaction_cases) (auto split: if_splits)
  qed
  have c4: "\<forall>mid. mirrorId m rule = Some mid \<and> truthy (Some mid) \<and> ?dat \<noteq> [] \<longrightarrow>
          mirrorTransaction m (MirrorData u) =
            ((if includesDot (name rule)
              then [TUpdate (DocRef (collection rule) mid)
                      (serverUpdateTimestamp [(name rule, VObj (removeUndefined ?dat))])]
              else [])
             @ [TSet (DocRef (collection rule) mid)
                  (serverUpdateTimestamp [(name rule, VObj (removeUndefined ?dat))]) True],
             [])
        \<and> (throwIfInvalid m = None \<longrightarrow>
             (\<exists>st. createBranch m force u st0 pre =
                TxCommitted st
                  (pre @ (if force then TSet (doc m) u False else TCreate (doc m) u)
                     # fst (mirrorTransaction m (MirrorData u))) [])
           \<and> (\<exists>st. updateBranch db False m u st0 pre =
                TxCommitted st
                  (pre @ TUpdate (doc m) u # fst (mirrorTransaction m (MirrorData u))) []))"
  proof (intro allI impI)
    fix mid
    assume h: "mirrorId m rule = Some mid \<and> truthy (Some mid) \<and> ?dat \<noteq> []"
    then have mt: "mirrorTransaction m (MirrorData u) =
            ((if includesDot (name rule)
              then [TUpdate (DocRef (collection rule) mid)
                      (serverUpdateTimestamp [(name rule, VObj (removeUndefined ?dat))])]
              else [])
             @ [TSet (DocRef (collection rule) mid)
                  (serverUpdateTimestamp [(name rule, VObj (removeUndefined ?dat))]) True],
             [])"
      using mirrorTransaction_data [OF assms, of mid u] by blast
    have lg: "snd (mirrorTransaction m (MirrorData u)) = []"
      by (simp add: mt)
    have ne: "u \<noteq> []"
      using h buildMirrorData_Nil by auto
    have br: "throwIfInvalid m = None \<longrightarrow>
             (\<exists>st. createBranch m force u st0 pre =
                TxCommitted st
                  (pre @ (if force then TSet (doc m) u False else TCreate (doc m) u)
                     # fst (mirrorTransaction m (MirrorData u))) [])
           \<and> (\<exists>st. updateBranch db False m u st0 pre =
                TxCommitted st
                  (pre @ TUpdate (doc m) u # fst (mirrorTransaction m (MirrorData u))) [])"
      using createBranch_ok [of m force u st0 pre] updateBranch_ok [of m u db st0 pre] ne lg
      by auto
    show "mirrorTransaction m (MirrorData u) =
            ((if includesDot (name rule)
              then [TUpdate (DocRef (collection rule) mid)
                      (serverUpdateTimestamp [(name rule, VObj (removeUndefined ?dat))])]
              else [])
             @ [TSet (DocRef (collection rule) mid)
                  (serverUpdateTimestamp [(name rule, VObj (removeUndefined ?dat))]) True],
             [])
        \<and> (throwIfInvalid m = None \<longrightarrow>
             (\<exists>st. createBranch m force u st0 pre =
                TxCommitted st
                  (pre @ (if force then TSet (doc m) u False else TCreate (doc m) u)
                     # fst (mirrorTransaction m (MirrorData u))) [])
           \<and> (\<exists>st. updateBranch db False m u st0 pre =
                TxCommitted st
                  (pre @ TUpdate (doc m) u # fst (mirrorTransaction m (MirrorData u))) []))"
      using mt br by blast
  qed
  have c5: "\<not> truthy (mirrorId m rule) \<longrightarrow>
          mirrorTransaction m (MirrorData u) = ([], [''Mirroring failed due to no provided id''])"
    using mirrorTransaction_skip(2) [OF assms] by blast
  have c6: "truthy (mirrorId m rule) \<and> ?dat = [] \<longrightarrow>
          mirrorTransaction m (MirrorData u) = ([], [''No data passed into the model''])"
    using mirrorTransaction_skip(3) [OF assms] by blast
  have c7: "?dat = [] \<or> \<not> truthy (mirrorId m rule) \<longrightarrow>
          fst (mirrorTransaction m (MirrorData u)) = []
        \<and> (snd (mirrorTransaction m (MirrorData u)) = [''No data passed into the model'']
           \<or> snd (mirrorTransaction m (MirrorData u))
                = [''Mirroring failed due to no provided id''])
        \<and> (throwIfInvalid m = None \<longrightarrow>
             (\<exists>st. createBranch m force u st0 pre =
                TxCommitted st
                  (pre @ [if force then TSet (doc m) u False else TCreate (doc m) u])
                  (snd (mirrorTransaction m (MirrorData u))))
           \<and> (u \<noteq> [] \<longrightarrow> (\<exists>st. updateBranch db False m u st0 pre =
                TxCommitted st (pre @ [TUpdate (doc m) u])
                  (snd (mirrorTransaction m (MirrorData u))))))"
  proof
    assume "?dat = [] \<or> \<not> truthy (mirrorId m rule)"
    then have s: "fst (mirrorTransaction m (MirrorData u)) = []"
      and l: "snd (mirrorTransaction m (MirrorData u)) = [''No data passed into the model'']
           \<or> snd (mirrorTransaction m (MirrorData u))
                = [''Mirroring failed due to no provided id'']"
      using c5 c6 by (cases "truthy (mirrorId m rule)"; auto)+
    have "throwIfInvalid m = None \<longrightarrow>
             (\<exists>st. createBranch m force u st0 pre =
                TxCommitted st
                  (pre @ [if force then TSet (doc m) u False else TCreate (doc m) u])
                  (snd (mirrorTransaction m (MirrorData u))))
           \<and> (u \<noteq> [] \<longrightarrow> (\<exists>st. updateBranch db False m u st0 pre =
                TxCommitted st (pre @ [TUpdate (doc m) u])
                  (snd (mirrorTransaction m (MirrorData u)))))"
      using createBranch_ok [of m force u st0 pre] updateBranch_ok [of m u db st0 pre] s
      by auto
    with s l show "fst (mirrorTransaction m (MirrorData u)) = []
        \<and> (snd (mirrorTransaction m (MirrorData u)) = [''No data passed into the model'']
           \<or> snd (mirrorTransaction m (MirrorData u))
                = [''Mirroring failed due to no provided id''])
        \<and> (throwIfInvalid m = None \<longrightarrow>
             (\<exists>st. createBranch m force u st0 pre =
                TxCommitted st
                  (pre @ [if force then TSet (doc m) u False else TCreate (doc m) u])
                  (snd (mirrorTransaction m (MirrorData u))))
           \<and> (u \<noteq> [] \<longrightarrow> (\<exists>st. updateBranch db False m u st0 pre =
                TxCommitted st (pre @ [TUpdate (doc m) u])
                  (snd (mirrorTransaction m (MirrorData u))))))"
      by blast
  qed
  show ?thesis
    using c1 c2 c3 c4 c5 c6 c7 by blast
qed

theorem mirror_filter_and_skip_witness:
  "map_of (buildMirrorData [(''a'', VNum 1), (''c'', VNum 2)] [''a'', ''b'']) ''a'' = Some (VNum 1)
   \<and> map_of (buildMirrorData [(''a'', VNum 1), (''c'', VNum 2)] [''a'', ''b'']) ''c'' = None
   \<and> mirrorTransaction exMirrorModel (MirrorData [(''a'', VNum 1), (''c'', VNum 2)]) =
       ([TUpdate (DocRef ''cache'' (VStr ''o1''))
           [(''profile.user'', VObj [(''a'', VNum 1)]), (''updatedAt'', VServerTimestamp)],
         TSet (DocRef ''cache'' (VStr ''o1''))
           [(''profile.user'', VObj [(''a'', VNum 1)]), (''updatedAt'', VServerTimestamp)] True],
        [])
   \<and> (\<exists>st. updateBranch exDb False exMirrorModel [(''a'', VNum 1), (''c'', VNum 2)]
              (createTransactionState (rawData exMirrorModel)) [] =
            TxCommitted st
              [TUpdate exDoc [(''a'', VNum 1), (''c'', VNum 2)],
               TUpdate (DocRef ''cache'' (VStr ''o1''))
                 [(''profile.user'', VObj [(''a'', VNum 1)]), (''updatedAt'', VServerTimestamp)],
               TSet (DocRef ''cache'' (VStr ''o1''))
                 [(''profile.user'', VObj [(''a'', VNum 1)]), (''updatedAt'', VServerTimestamp)]
                 True] [])
   \<and> mirrorTransaction exPlainMirror (MirrorData [(''a'', VNum 1), (''c'', VNum 2)]) =
       ([TSet (DocRef ''cache'' (VStr ''u1''))
           [(''user'', VObj [(''a'', VNum 1)]), (''updatedAt'', VServerTimestamp)] True], [])
   \<and> mirrorTransaction exMirrorModel (MirrorData [(''c'', VNum 2)])
        = ([], [''No data passed into the model''])
   \<and> (\<exists>st. updateBranch exDb False exMirrorModel [(''c'', VNum 2)]
              (createTransactionState (rawData exMirrorModel)) [] =
            TxCommitted st [TUpdate exDoc [(''c'', VNum 2)]] [''No data passed into the model''])
   \<and> mirrorTransaction exMirrorNoOwner (MirrorData [(''a'', VNum 1)])
        = ([], [''Mirroring failed due to no provided id''])
   \<and> (\<exists>st. createBranch exMirrorNoOwner True [(''a'', VNum 1)]
              (createTransactionState (rawData exMirrorNoOwner)) [] =
            TxCommitted st [TSet exDoc [(''a'', VNum 1)] False]
              [''Mirroring failed due to no provided id''])"
proof -
  note w = mirror_filter_and_skip [OF exMirror_facts(1,2),
      of "[(''a'', VNum 1), (''c'', VNum 2)]" False
        "createTransactionState (rawData exMirrorModel)" "[]" exDb,
      unfolded exRule_fields exMirror_payloads]
  note p = mirror_filter_and_skip [OF exPlain_facts(1,2),
      of "[(''a'', VNum 1), (''c'', VNum 2)]" False
        "createTransactionState (rawData exPlainMirror)" "[]" exDb,
      unfolded exRule_fields exMirror_payloads]
  note e = mirror_filter_and_skip [OF exMirror_facts(1,2), of "[(''c'', VNum 2)]" False
        "createTransactionState (rawData exMirrorModel)" "[]" exDb,
      unfolded exRule_fields exMirror_payloads]
  note n = mirror_filter_and_skip [OF exNoOwner_facts(1,2), of "[(''a'', VNum 1)]" True
        "createTransactionState (rawData exMirrorNoOwner)" "[]" exDb,
      unfolded exRule_fields exMirror_payloads]
  have 1: "map_of [(''a'', VNum 1)] ''a'' = Some (VNum 1)" "map_of [(''a'', VNum 1)] ''c'' = None"
    by simp_all
  have 2: "mirrorTransaction exMirrorModel (MirrorData [(''a'', VNum 1), (''c'', VNum 2)]) =
       ([TUpdate (DocRef ''cache'' (VStr ''o1''))
           [(''profile.user'', VObj [(''a'', VNum 1)]), (''updatedAt'', VServerTimestamp)],
         TSet (DocRef ''cache'' (VStr ''o1''))
           [(''profile.user'', VObj [(''a'', VNum 1)]), (''updatedAt'', VServerTimestamp)] True],
        [])"
    using w exMirror_facts(3) by (simp add: exMirror_payloads(6,7))
  have 3: "\<exists>st. updateBranch exDb False exMirrorModel [(''a'', VNum 1), (''c'', VNum 2)]
              (createTransactionState (rawData exMirrorModel)) [] =
            TxCommitted st
              [TUpdate exDoc [(''a'', VNum 1), (''c'', VNum 2)],
               TUpdate (DocRef ''cache'' (VStr ''o1''))
                 [(''profile.user'', VObj [(''a'', VNum 1)]), (''updatedAt'', VServerTimestamp)],
               TSet (DocRef ''cache'' (VStr ''o1''))
                 [(''profile.user'', VObj [(''a'', VNum 1)]), (''updatedAt'', VServerTimestamp)]
                 True] []"
    using w exMirror_facts(3,4,5) 2 by (simp add: exMirror_payloads(6,7))
  have 4: "mirrorTransaction exPlainMirror (MirrorData [(''a'', VNum 1), (''c'', VNum 2)]) =
       ([TSet (DocRef ''cache'' (VStr ''u1''))
           [(''user'', VObj [(''a'', VNum 1)]), (''updatedAt'', VServerTimestamp)] True], [])"
    using p exPlain_facts(3) by (simp add: exMirror_payloads(6,7))
  have 5: "mirrorTransaction exMirrorModel (MirrorData [(''c'', VNum 2)])
        = ([], [''No data passed into the model''])"
    using e exMirror_facts(3) by (simp add: exMirror_payloads(6,7))
  have 6: "\<exists>st. updateBranch exDb False exMirrorModel [(''c'', VNum 2)]
              (createTransactionState (rawData exMirrorModel)) [] =
            TxCommitted st [TUpdate exDoc [(''c'', VNum 2)]] [''No data passed into the model'']"
    using e exMirror_facts(3,4,5) 5 by (simp add: exMirror_payloads(6,7))
  have 7: "mirrorTransaction exMirrorNoOwner (MirrorData [(''a'', VNum 1)])
        = ([], [''Mirroring failed due to no provided id''])"
    using n exNoOwner_facts(3) by (simp add: exMirror_payloads(6,7))
  have 8: "\<exists>st. createBranch exMirrorNoOwner True [(''a'', VNum 1)]
              (createTransactionState (rawData exMirrorNoOwner)) [] =
            TxCommitted st [TSet exDoc [(''a'', VNum 1)] False]
              [''Mirroring failed due to no provided id'']"
    using n exNoOwner_facts(3,4,5) 7 by (simp add: exMirror_payloads(6,7))
  show ?thesis
    using 1 2 3 4 5 6 7 8 by (simp add: exMirror_payloads)
qed

text \<open>
  C9: when a Delete action is queued, the schema's mirror rule names an id-field and the
  local raw data has no value for it, the attempt reads the document, the mirror step
  still resolves its id from the local raw data, which the read has not changed, and
  writes nothing (logging the failure when mirroring is in effect), and the delete of the
  primary document follows; the attempt commits with status deleted.
\<close>

theorem delete_mirror_id_unknown:
  assumes "actionsContainDelete (actions m)" "mirror (schema m) = Some rule"
    "idField rule = Some f" "f \<noteq> []" "\<not> truthy (map_of (rawData m) f)"
  shows "(\<exists>st. buildTransaction db ag m =
            TxCommitted st [TGet (doc m), TDelete (doc m)]
              (if canMirror m then [''Mirroring failed due to no provided id''] else [])
          \<and> s_syncData st = Some (getRecord (docs db) (doc m))
          \<and> s_lastRunStatus st = Some Deleted \<and> ar_delete (s_actionsRun st))
     \<and> mirrorId m rule = map_of (rawData m) f
     \<and> fst (mirrorTransaction m MirrorDelete) = []"
proof -
  have idf: "getIdFieldFromSchema (schema m) = Some f"
    using assms(2,3) by (simp add: getIdFieldFromSchema_def)
  have mi: "mirrorId m rule = map_of (rawData m) f"
    using assms(3,4) by (simp add: mirrorId_def)
  have nid: "\<not> truthy (mirrorId m rule)"
    using assms(5) by (simp add: mi)
  have mt: "mirrorTransaction m MirrorDelete =
      ([], if canMirror m then [''Mirroring failed due to no provided id''] else [])"
    using mirrorTransaction_skip(1) [of m MirrorDelete]
      mirrorTransaction_skip(2) [OF _ assms(2) nid, of MirrorDelete]
    by (cases "canMirror m") simp_all
  have "\<exists>st. buildTransaction db ag m =
            TxCommitted st [TGet (doc m), TDelete (doc m)]
              (if canMirror m then [''Mirroring failed due to no provided id''] else [])
          \<and> s_syncData st = Some (getRecord (docs db) (doc m))
          \<and> s_lastRunStatus st = Some Deleted \<and> ar_delete (s_actionsRun st)"
    unfolding buildTransaction_delete [OF assms(1)] deleteBranch_eq
    using assms(4,5)
    by (simp add: mt idf deleteTransaction_def getTransaction_status)
  then show ?thesis
    using mi mt by simp
qed

theorem delete_mirror_id_unknown_witness:
  "rec_data (getRecord (docs exDb) exDoc)
     = Some [(''a'', VNum 0), (''b'', VNum 7), (''owner'', VStr ''o1'')]
   \<and> map_of (rawData (snd (delete None exMirrorFresh))) ''owner'' = None
   \<and> (\<exists>st. buildTransaction exDb False (snd (delete None exMirrorFresh)) =
            TxCommitted st [TGet exDoc, TDelete exDoc] [''Mirroring failed due to no provided id'']
          \<and> s_syncData st = Some (getRecord (docs exDb) exDoc)
          \<and> s_lastRunStatus st = Some Deleted \<and> ar_delete (s_actionsRun st))"
proof -
  let ?n = "snd (delete None exMirrorFresh)"
  have h: "actionsContainDelete (actions ?n)" "mirror (schema ?n) = Some exRule"
    "idField exRule = Some ''owner''" "''owner'' \<noteq> []"
    "\<not> truthy (map_of (rawData ?n) ''owner'')"
    by (simp_all add: delete_def resetRawData_def actionsContainDelete_def ex_defs)
  have c: "canMirror ?n" "doc ?n = exDoc" "rawData ?n = []"
    by (simp_all add: delete_def resetRawData_def canMirror_def ex_defs)
  have g: "rec_data (getRecord (docs exDb) exDoc)
     = Some [(''a'', VNum 0), (''b'', VNum 7), (''owner'', VStr ''o1'')]"
    by (simp add: getRecord_def exDb_def)
  show ?thesis
    using delete_mirror_id_unknown [OF h, of exDb False] g
    by (simp add: c)
qed

text \<open>
  C10: \<open>delete(keys)\<close> is not atomic on error. When the keys before the first protected
  key \<open>p\<close> are not protected, the call throws the protected-field error of \<open>p\<close> and the
  model keeps the removals made before it: exactly the fields named before \<open>p\<close> are
  gone from the local view, the keys after \<open>p\<close> are untouched.
\<close>

theorem delete_keys_not_atomic:
  assumes "\<forall>k\<in>set pre. \<not> isBaseProp k" "isBaseProp p"
  shows "delete (Some (pre @ p # post)) m =
           (Some (ProtectedField p), m\<lparr>rawData := fold AList.delete pre (rawData m)\<rparr>)
     \<and> map_of (fold AList.delete pre (rawData m)) = map_of (rawData m) |` (- set pre)"
  using assms by (simp add: delete_def deleteKeys_protected map_of_fold_delete)

theorem delete_keys_not_atomic_witness:
  "delete (Some [''a'', ''schemaVersion'', ''b'']) exLoaded =
     (Some (ProtectedField ''schemaVersion''), exLoaded\<lparr>rawData := [(''b'', VNum 7)]\<rparr>)"
proof -
  have h: "\<forall>k\<in>set [''a'']. \<not> isBaseProp k" "isBaseProp ''schemaVersion''"
    by (simp_all add: isBaseProp_def baseProps_def)
  show ?thesis
    using delete_keys_not_atomic [OF h, of "[''b'']" exLoaded]
    by (simp add: ex_defs AList.delete_eq)
qed

end
